theory Spec2Isabelle
  imports Complex_Main "HOL-Library.Word" "HOL-Library.AList"
begin

section \<open>Values, replies and exceptions shared by the two extractors\<close>

text \<open>
  Both programs handle parsed JSON as untyped Python values. \<open>JNull\<close> is Python's
  \<open>None\<close>; a \<open>JObj\<close> is a dict in insertion order (its keys are distinct, the first
  binding is the one a lookup finds). JSON floats are left out: no control flow of the
  two programs depends on one.
\<close>

datatype json =
    JNull
  | JBool bool
  | JInt int
  | JStr string
  | JArr "json list"
  | JObj "(string \<times> json) list"

text \<open>Python truthiness: what \<open>if x\<close> and \<open>not x\<close> test.\<close>

fun truthy :: "json \<Rightarrow> bool" where
  "truthy JNull = False"
| "truthy (JBool b) = b"
| "truthy (JInt n) = (n \<noteq> 0)"
| "truthy (JStr s) = (s \<noteq> [])"
| "truthy (JArr xs) = (xs \<noteq> [])"
| "truthy (JObj kvs) = (kvs \<noteq> [])"

text \<open>
  Every exception the modelled code can raise. All of them are subclasses of Python's
  \<open>Exception\<close>, so \<open>except Exception\<close> catches each one.
\<close>

datatype error =
    RequestException
  | HTTPError nat
  | JSONDecodeError
  | KeyError string
  | AttributeError
  | TypeError
  | ValueError
  | UnicodeDecodeError
  | BadGzipFile
  | OSError
  | EOFError
  | ZlibError
  | CsvError
  | ReportGenerationFailed json
  | TimeoutError

text \<open>
  What one call of the \<open>requests\<close> library gives: no response at all (the call raises
  a \<open>RequestException\<close>), or a response with a status code and a body. For the JSON
  endpoints the body is the parsed value, or \<open>None\<close> when the body is not JSON and
  \<open>response.json()\<close> raises.
\<close>

datatype 'a reply = NoReply | Reply nat 'a

type_synonym api_reply = "json option reply"

text \<open>\<open>response.raise_for_status()\<close> raises \<open>HTTPError\<close> for the codes 400 to 599.\<close>

definition raise_for_status :: "nat \<Rightarrow> bool" where
  "raise_for_status st \<longleftrightarrow> 400 \<le> st \<and> st < 600"

text \<open>
  The three lines \<open>response = requests...\<close>, \<open>response.raise_for_status()\<close>,
  \<open>data = response.json()\<close> that every JSON call of both programs runs.
\<close>

fun json_of_reply :: "api_reply \<Rightarrow> error + json" where
  "json_of_reply NoReply = Inl RequestException"
| "json_of_reply (Reply st body) =
     (if raise_for_status st then Inl (HTTPError st)
      else case body of None \<Rightarrow> Inl JSONDecodeError | Some data \<Rightarrow> Inr data)"

text \<open>\<open>d.get(key)\<close> and \<open>d.get(key, default)\<close>: only a dict has the method.\<close>

fun py_get :: "json \<Rightarrow> string \<Rightarrow> json \<Rightarrow> error + json" where
  "py_get (JObj kvs) k dflt = (case map_of kvs k of None \<Rightarrow> Inr dflt | Some v \<Rightarrow> Inr v)"
| "py_get _ k dflt = Inl AttributeError"

text \<open>\<open>d[key]\<close> with a string key: \<open>KeyError\<close> on a dict without the key, \<open>TypeError\<close>
  on every other value.\<close>

fun py_getitem :: "json \<Rightarrow> string \<Rightarrow> error + json" where
  "py_getitem (JObj kvs) k = (case map_of kvs k of None \<Rightarrow> Inl (KeyError k) | Some v \<Rightarrow> Inr v)"
| "py_getitem _ k = Inl TypeError"

text \<open>\<open>key in d\<close> with a string key: a key of a dict, an element of a list, a substring
  of a string; any other value raises \<open>TypeError\<close>.\<close>

fun is_substring :: "string \<Rightarrow> string \<Rightarrow> bool" where
  "is_substring k [] = (k = [])"
| "is_substring k (c # cs) = (take (length k) (c # cs) = k \<or> is_substring k cs)"

fun py_in :: "string \<Rightarrow> json \<Rightarrow> error + bool" where
  "py_in k (JObj kvs) = Inr (map_of kvs k \<noteq> None)"
| "py_in k (JArr xs) = Inr (JStr k \<in> set xs)"
| "py_in k (JStr s) = Inr (is_substring k s)"
| "py_in k _ = Inl TypeError"

text \<open>What \<open>list.extend(x)\<close> appends: the elements of a list, the keys of a dict, the
  characters of a string; any other value raises \<open>TypeError\<close>.\<close>

fun py_iter :: "json \<Rightarrow> error + json list" where
  "py_iter (JArr xs) = Inr xs"
| "py_iter (JObj kvs) = Inr (map (\<lambda>kv. JStr (fst kv)) kvs)"
| "py_iter (JStr s) = Inr (map (\<lambda>c. JStr [c]) s)"
| "py_iter _ = Inl TypeError"

section \<open>The Amazon Ads fetcher\<close>

subsection \<open>Construction\<close>

text \<open>
  The fields that the Amazon and the Bing object have in common are the parent record;
  each class extends it with its own.
\<close>

record oauth_client =
  client_id :: string
  client_secret :: string
  refresh_token :: string
  access_token :: json

record AmazonAdsFetcher = oauth_client +
  region :: string
  base_url :: string

definition REGION_URLS :: "(string \<times> string) list" where
  "REGION_URLS =
     [(''NA'', ''https://advertising-api.amazon.com''),
      (''EU'', ''https://advertising-api-eu.amazon.com''),
      (''FE'', ''https://advertising-api-fe.amazon.com'')]"

text \<open>
  \<open>__init__\<close>: \<open>self.REGION_URLS["NA"]\<close> is evaluated first (a subscript, which would
  raise \<open>KeyError\<close> on a table without the key) and is the default of the \<open>.get\<close>.
\<close>

definition AmazonAdsFetcher_init ::
  "string \<Rightarrow> string \<Rightarrow> string \<Rightarrow> string \<Rightarrow> error + AmazonAdsFetcher" where
  "AmazonAdsFetcher_init cid secret rtoken reg =
     (case map_of REGION_URLS ''NA'' of
        None \<Rightarrow> Inl (KeyError ''NA'')
      | Some na \<Rightarrow>
          Inr \<lparr> client_id = cid, client_secret = secret, refresh_token = rtoken,
                access_token = JNull,
                region = reg,
                base_url = (case map_of REGION_URLS reg of None \<Rightarrow> na | Some u \<Rightarrow> u) \<rparr>)"

subsection \<open>Token refresh\<close>

text \<open>
  \<open>refresh_access_token\<close>: one call of the token endpoint (the reply is the argument).
  The result is the returned value or the re-raised exception, the updated object, and
  the lines written to the error stream.
\<close>

definition refresh_access_token ::
  "AmazonAdsFetcher \<Rightarrow> api_reply \<Rightarrow> (error + json) \<times> AmazonAdsFetcher \<times> string list" where
  "refresh_access_token self r =
     (case json_of_reply r of
        Inl e \<Rightarrow> (Inl e, self, [''Error refreshing token''])
      | Inr data \<Rightarrow>
          (case py_get data ''access_token'' JNull of
             Inl e \<Rightarrow> (Inl e, self, [''Error refreshing token''])
           | Inr tok \<Rightarrow> (Inr tok, self\<lparr>access_token := tok\<rparr>, [])))"

subsection \<open>Paginated fetches\<close>

text \<open>
  Each of the four fetches is a \<open>while True\<close> loop that issues one request per
  iteration. \<open>while_true\<close> is that loop over a scripted network: the script lists the
  replies the server gives to the successive requests of the loop, and once it is used
  up the next request fails to connect (it raises \<open>RequestException\<close>). The URL,
  headers and body of a request only select the reply, which the script fixes, so they
  are not represented. The body gets the loop state and the reply and either raises,
  breaks or continues. The last argument counts the requests issued.
\<close>

datatype 's flow = Break 's | Continue 's

fun while_true ::
  "('s \<Rightarrow> 'r reply \<Rightarrow> error + 's flow) \<Rightarrow> 'r reply list \<Rightarrow> 's \<Rightarrow> nat \<Rightarrow> (error + 's) \<times> nat" where
  "while_true body [] s calls = (Inl RequestException, Suc calls)"
| "while_true body (r # rs) s calls =
     (case body s r of
        Inl e \<Rightarrow> (Inl e, Suc calls)
      | Inr (Break s') \<Rightarrow> (Inr s', Suc calls)
      | Inr (Continue s') \<Rightarrow> while_true body rs s' (Suc calls))"

text \<open>
  \<open>get_sponsored_display_campaigns\<close>, one iteration. The state is
  \<open>params["startIndex"]\<close> and \<open>campaigns\<close>. \<open>len(data)\<close> is the number of elements
  that \<open>extend\<close> appended.
\<close>

fun sd_iteration :: "nat \<times> json list \<Rightarrow> api_reply \<Rightarrow> error + (nat \<times> json list) flow" where
  "sd_iteration (start_index, campaigns) r =
     (case json_of_reply r of
        Inl e \<Rightarrow> Inl e
      | Inr data \<Rightarrow>
          if \<not> truthy data then Inr (Break (start_index, campaigns))
          else (case py_iter data of
                  Inl e \<Rightarrow> Inl e
                | Inr items \<Rightarrow>
                    if length items < 100 then Inr (Break (start_index, campaigns @ items))
                    else Inr (Continue (start_index + 100, campaigns @ items))))"

text \<open>
  A fetch gives the list it returns, the number of requests it issued, and the lines
  it wrote to the error stream.
\<close>

definition get_sponsored_display_campaigns :: "api_reply list \<Rightarrow> json list \<times> nat \<times> string list" where
  "get_sponsored_display_campaigns script =
     (case while_true sd_iteration script (0, []) 0 of
        (Inl e, calls) \<Rightarrow> ([], calls, [''Error fetching Sponsored Display campaigns''])
      | (Inr (start_index, campaigns), calls) \<Rightarrow> (campaigns, calls, []))"

text \<open>\<open>if key in data: acc.extend(data[key])\<close>\<close>

definition extend_if_present :: "string \<Rightarrow> json \<Rightarrow> json list \<Rightarrow> error + json list" where
  "extend_if_present k data acc =
     (case py_in k data of
        Inl e \<Rightarrow> Inl e
      | Inr present \<Rightarrow>
          if present then
            (case py_getitem data k of
               Inl e \<Rightarrow> Inl e
             | Inr v \<Rightarrow> (case py_iter v of Inl e \<Rightarrow> Inl e | Inr items \<Rightarrow> Inr (acc @ items)))
          else Inr acc)"

text \<open>\<open>if key not in data or not data[key]: break\<close>, else the value that is copied into
  the next request.\<close>

definition next_marker :: "string \<Rightarrow> json \<Rightarrow> error + json option" where
  "next_marker k data =
     (case py_in k data of
        Inl e \<Rightarrow> Inl e
      | Inr present \<Rightarrow>
          if \<not> present then Inr None
          else (case py_getitem data k of
                  Inl e \<Rightarrow> Inl e
                | Inr v \<Rightarrow> Inr (if truthy v then Some v else None)))"

text \<open>
  The body after \<open>data = response.json()\<close> that the Sponsored Brands, Sponsored
  Products and attribution loops share, with the key of the item list and the key of
  the continuation value. The state is the continuation value of the request payload
  and the accumulated list.
\<close>

definition keyed_page ::
  "string \<Rightarrow> string \<Rightarrow> json option \<times> json list \<Rightarrow> json \<Rightarrow> error + (json option \<times> json list) flow" where
  "keyed_page items_key marker_key s data =
     (case extend_if_present items_key data (snd s) of
        Inl e \<Rightarrow> Inl e
      | Inr acc \<Rightarrow>
          (case next_marker marker_key data of
             Inl e \<Rightarrow> Inl e
           | Inr None \<Rightarrow> Inr (Break (fst s, acc))
           | Inr (Some m) \<Rightarrow> Inr (Continue (Some m, acc))))"

definition campaigns_iteration ::
  "json option \<times> json list \<Rightarrow> api_reply \<Rightarrow> error + (json option \<times> json list) flow" where
  "campaigns_iteration s r =
     (case json_of_reply r of
        Inl e \<Rightarrow> Inl e
      | Inr data \<Rightarrow> keyed_page ''campaigns'' ''nextToken'' s data)"

definition get_sponsored_brands_campaigns :: "api_reply list \<Rightarrow> json list \<times> nat \<times> string list" where
  "get_sponsored_brands_campaigns script =
     (case while_true campaigns_iteration script (None, []) 0 of
        (Inl e, calls) \<Rightarrow> ([], calls, [''Error fetching Sponsored Brands campaigns''])
      | (Inr (next_token, campaigns), calls) \<Rightarrow> (campaigns, calls, []))"

definition get_sponsored_products_campaigns :: "api_reply list \<Rightarrow> json list \<times> nat \<times> string list" where
  "get_sponsored_products_campaigns script =
     (case while_true campaigns_iteration script (None, []) 0 of
        (Inl e, calls) \<Rightarrow> ([], calls, [''Error fetching Sponsored Products campaigns''])
      | (Inr (next_token, campaigns), calls) \<Rightarrow> (campaigns, calls, []))"

text \<open>
  \<open>get_attribution_performance_campaign\<close>, one iteration: status 400 breaks before
  \<open>raise_for_status\<close> is reached.
\<close>

fun attribution_iteration ::
  "json option \<times> json list \<Rightarrow> api_reply \<Rightarrow> error + (json option \<times> json list) flow" where
  "attribution_iteration s NoReply = Inl RequestException"
| "attribution_iteration s (Reply st body) =
     (if st = 400 then Inr (Break s)
      else (case json_of_reply (Reply st body) of
              Inl e \<Rightarrow> Inl e
            | Inr data \<Rightarrow> keyed_page ''reports'' ''cursorId'' s data))"

definition get_attribution_performance_campaign :: "api_reply list \<Rightarrow> json list \<times> nat \<times> string list" where
  "get_attribution_performance_campaign script =
     (case while_true attribution_iteration script (None, []) 0 of
        (Inl e, calls) \<Rightarrow> ([], calls, [''Error fetching attribution report''])
      | (Inr (cursor_id, reports), calls) \<Rightarrow> (reports, calls, []))"

subsection \<open>The orchestrator\<close>

text \<open>\<open>get_profiles\<close>: the value it returns and the lines it writes.\<close>

definition get_profiles :: "api_reply \<Rightarrow> json \<times> string list" where
  "get_profiles r =
     (case json_of_reply r of
        Inl e \<Rightarrow> (JArr [], [''Error fetching profiles''])
      | Inr data \<Rightarrow> (data, []))"

text \<open>
  The world of a run of \<open>fetch_all_data\<close>: the reply of the token endpoint and of the
  profile listing, for every profile id the script of each of its four page loops, and
  Python's \<open>str\<close> on a JSON value.
\<close>

record amazon_world =
  token_reply :: api_reply
  profiles_reply :: api_reply
  display_script :: "string \<Rightarrow> api_reply list"
  brands_script :: "string \<Rightarrow> api_reply list"
  products_script :: "string \<Rightarrow> api_reply list"
  attribution_script :: "string \<Rightarrow> api_reply list"
  py_str :: "json \<Rightarrow> string"

datatype amazon_call =
    TokenCall
  | ProfilesCall
  | DisplayCall string
  | BrandsCall string
  | ProductsCall string
  | AttributionCall string

text \<open>
  The result document: \<open>all_data["profiles"]\<close>, and the two dicts
  \<open>all_data["campaigns"]\<close> and \<open>all_data["performance"]\<close> keyed by profile id (the inner
  dict of the latter has the one key \<open>attribution_campaign\<close>, whose list is kept).
\<close>

record campaign_lists =
  sponsored_display :: "json list"
  sponsored_brands :: "json list"
  sponsored_products :: "json list"

record all_data =
  profiles :: json
  campaigns_of_profile :: "(string \<times> campaign_lists) list"
  performance_of_profile :: "(string \<times> json list) list"

text \<open>
  What one iteration of \<open>for profile in profiles\<close> computes: the profile id, the two
  entries stored under it, the requests sent and the lines written. The subscript
  \<open>profile["profileId"]\<close> and the chained \<open>.get\<close> for the profile name can raise; they
  come before the first fetch.
\<close>

definition profile_body ::
  "amazon_world \<Rightarrow> json \<Rightarrow>
     error + (string \<times> campaign_lists \<times> json list \<times> amazon_call list \<times> string list)" where
  "profile_body w profile =
     (case py_getitem profile ''profileId'' of
        Inl e \<Rightarrow> Inl e
      | Inr v \<Rightarrow>
          let profile_id = py_str w v in
          (case py_get profile ''accountInfo'' (JObj []) of
             Inl e \<Rightarrow> Inl e
           | Inr info \<Rightarrow>
               (case py_get info ''name'' (JStr profile_id) of
                  Inl e \<Rightarrow> Inl e
                | Inr profile_name \<Rightarrow>
                    (case get_sponsored_display_campaigns (display_script w profile_id) of
                       (sd, n1, l1) \<Rightarrow>
                    (case get_sponsored_brands_campaigns (brands_script w profile_id) of
                       (sb, n2, l2) \<Rightarrow>
                    (case get_sponsored_products_campaigns (products_script w profile_id) of
                       (sp, n3, l3) \<Rightarrow>
                    (case get_attribution_performance_campaign (attribution_script w profile_id) of
                       (reports, n4, l4) \<Rightarrow>
                         Inr (profile_id,
                              \<lparr> sponsored_display = sd, sponsored_brands = sb,
                                sponsored_products = sp \<rparr>,
                              reports,
                              replicate n1 (DisplayCall profile_id)
                                @ replicate n2 (BrandsCall profile_id)
                                @ replicate n3 (ProductsCall profile_id)
                                @ replicate n4 (AttributionCall profile_id),
                              l1 @ l2 @ l3 @ l4))))))))"

fun profiles_loop ::
  "amazon_world \<Rightarrow> json list \<Rightarrow> all_data \<Rightarrow> amazon_call list \<Rightarrow> string list \<Rightarrow>
     (error + all_data) \<times> amazon_call list \<times> string list" where
  "profiles_loop w [] data calls lines = (Inr data, calls, lines)"
| "profiles_loop w (profile # rest) data calls lines =
     (case profile_body w profile of
        Inl e \<Rightarrow> (Inl e, calls, lines)
      | Inr (profile_id, entry, reports, cs, ls) \<Rightarrow>
          profiles_loop w rest
            (data\<lparr>campaigns_of_profile := AList.update profile_id entry (campaigns_of_profile data),
                  performance_of_profile :=
                    AList.update profile_id reports (performance_of_profile data)\<rparr>)
            (calls @ cs) (lines @ ls))"

text \<open>
  \<open>fetch_all_data\<close>: the outcome, the object it leaves, the requests it sent, and the
  lines it wrote.
\<close>

definition fetch_all_data ::
  "AmazonAdsFetcher \<Rightarrow> amazon_world \<Rightarrow>
     (error + all_data) \<times> AmazonAdsFetcher \<times> amazon_call list \<times> string list" where
  "fetch_all_data self w =
     (case refresh_access_token self (token_reply w) of
        (Inl e, self', l0) \<Rightarrow> (Inl e, self', [TokenCall], l0)
      | (Inr tok, self', l0) \<Rightarrow>
          (case get_profiles (profiles_reply w) of
             (ps, l1) \<Rightarrow>
               (case py_iter ps of
                  Inl e \<Rightarrow> (Inl e, self', [TokenCall, ProfilesCall], l0 @ l1)
                | Inr profile_list \<Rightarrow>
                    (case profiles_loop w profile_list
                            \<lparr> profiles = ps, campaigns_of_profile = [],
                              performance_of_profile = [] \<rparr>
                            [TokenCall, ProfilesCall] (l0 @ l1) of
                       (r, calls, lines) \<Rightarrow> (r, self', calls, lines)))))"

subsection \<open>Pages, as the specification speaks of them\<close>

text \<open>
  The item list of a successful page whose body is a JSON object: the list under the
  key, or no items when the key is absent.
\<close>

definition items_under :: "string \<Rightarrow> api_reply \<Rightarrow> json list option" where
  "items_under k r =
     (case json_of_reply r of
        Inr (JObj kvs) \<Rightarrow>
          (case map_of kvs k of
             None \<Rightarrow> Some []
           | Some (JArr xs) \<Rightarrow> Some xs
           | Some _ \<Rightarrow> None)
      | _ \<Rightarrow> None)"

text \<open>The continuation value of such a page: \<open>None\<close> when the key is absent or its
  value is empty.\<close>

definition marker_under :: "string \<Rightarrow> api_reply \<Rightarrow> json option" where
  "marker_under k r =
     (case json_of_reply r of
        Inr (JObj kvs) \<Rightarrow>
          (case map_of kvs k of
             None \<Rightarrow> None
           | Some v \<Rightarrow> if truthy v then Some v else None)
      | _ \<Rightarrow> None)"

text \<open>A request that fails: no response, an error status, or a body that is not JSON.\<close>

definition request_fails :: "api_reply \<Rightarrow> bool" where
  "request_fails r = (case json_of_reply r of Inl e \<Rightarrow> True | Inr data \<Rightarrow> False)"

definition status_400 :: "api_reply \<Rightarrow> bool" where
  "status_400 r = (case r of NoReply \<Rightarrow> False | Reply st body \<Rightarrow> st = 400)"

text \<open>
  The shapes of script the pagination properties speak of. A full page of the offset fetch
  is a JSON list of at least 100 items, a short page one of fewer (the empty page
  included). A continuing page of the other fetches carries a non-empty continuation
  value under the marker key, a final page none.
\<close>

definition full_pages :: "api_reply list \<Rightarrow> json list list \<Rightarrow> bool" where
  "full_pages rs pages =
     list_all2 (\<lambda>r p. json_of_reply r = Inr (JArr p) \<and> 100 \<le> length p) rs pages"

definition short_page :: "api_reply \<Rightarrow> json list \<Rightarrow> bool" where
  "short_page r p \<longleftrightarrow> json_of_reply r = Inr (JArr p) \<and> length p < 100"

definition continuing_pages :: "string \<Rightarrow> string \<Rightarrow> api_reply list \<Rightarrow> json list list \<Rightarrow> bool" where
  "continuing_pages ik mk rs pages =
     list_all2 (\<lambda>r p. items_under ik r = Some p \<and> marker_under mk r \<noteq> None) rs pages"

definition final_page :: "string \<Rightarrow> string \<Rightarrow> api_reply \<Rightarrow> json list \<Rightarrow> bool" where
  "final_page ik mk r p \<longleftrightarrow> items_under ik r = Some p \<and> marker_under mk r = None"

section \<open>The Bing Ads extractor\<close>

subsection \<open>The object, the run and the world\<close>

record BingAdsExtractor = oauth_client +
  tenant_id :: string
  developer_token :: string

text \<open>
  A session is the extractor object together with what a run consumes and produces:
  the replies the token endpoint has yet to give (used up as in a page loop), the
  requests sent so far, and the error lines written to the error stream (the progress
  lines the code also prints there are left out).
\<close>

datatype endpoint =
    TokenEndpoint
  | UserQuery
  | AccountsSearch int
  | CampaignsQuery int int
  | SubmitReport int
  | PollReport json
  | Download string

record session = BingAdsExtractor +
  token_script :: "api_reply list"
  trace :: "endpoint list"
  stderr :: "string list"

text \<open>
  \<open>__init__\<close> stores the five credentials and sets \<open>access_token\<close> to \<open>None\<close> (the three
  constant base URLs it also stores only shape request URLs).
\<close>

definition BingAdsExtractor_init ::
  "string \<Rightarrow> string \<Rightarrow> string \<Rightarrow> string \<Rightarrow> string \<Rightarrow> api_reply list \<Rightarrow> session" where
  "BingAdsExtractor_init tenant cid secret rtoken dev script =
     \<lparr> client_id = cid, client_secret = secret, refresh_token = rtoken,
       access_token = JNull, tenant_id = tenant, developer_token = dev,
       token_script = script, trace = [], stderr = [] \<rparr>"

text \<open>
  One iteration of the report poll loop as the world sees it: the reply to the poll,
  the seconds the poll request took, and the seconds by which the \<open>time.sleep(10)\<close>
  after it overran. Clock readings are exact numbers.
\<close>

record poll_event =
  answer :: api_reply
  took :: real
  overslept :: real

type_synonym bytes = "8 word list"

text \<open>
  The world of a run, apart from the token endpoint: the reply of every data endpoint
  as a function of the arguments that identify the call; for each report id the
  events of its poll loop; the seconds that pass between the two first clock readings
  of \<open>get_performance_report\<close>; and the library functions the code calls whose result
  is data-dependent: \<open>int\<close> on a string and \<open>datetime.strptime(_, "%Y-%m-%d")\<close> (where
  they succeed), \<open>gzip.decompress\<close>, \<open>bytes.decode("utf-8-sig")\<close> and
  \<open>list(csv.DictReader(StringIO(_)))\<close>.
\<close>

record world =
  users_reply :: api_reply
  accounts_reply :: "int \<Rightarrow> api_reply"
  campaigns_reply :: "int \<Rightarrow> int \<Rightarrow> api_reply"
  submit_reply :: "int \<Rightarrow> api_reply"
  poll_events :: "json \<Rightarrow> poll_event list"
  entry_delay :: real
  download_reply :: "string \<Rightarrow> bytes reply"
  str_to_int :: "string \<Rightarrow> int option"
  valid_date :: "string \<Rightarrow> bool"
  gzip_decompress :: "bytes \<Rightarrow> error + bytes"
  decode_utf8_sig :: "bytes \<Rightarrow> string option"
  dict_reader :: "string \<Rightarrow> error + json list"

subsection \<open>Methods as actions on the session\<close>

text \<open>
  A method either returns a value or raises, and leaves a session behind.
\<close>

type_synonym 'a action = "session \<Rightarrow> (error + 'a) \<times> session"

definition returnM :: "'a \<Rightarrow> 'a action" where
  "returnM x s = (Inr x, s)"

definition raiseM :: "error \<Rightarrow> 'a action" where
  "raiseM e s = (Inl e, s)"

definition liftE :: "error + 'a \<Rightarrow> 'a action" where
  "liftE r s = (r, s)"

definition bindM :: "'a action \<Rightarrow> ('a \<Rightarrow> 'b action) \<Rightarrow> 'b action" where
  "bindM m k s = (case m s of (Inl e, s') \<Rightarrow> (Inl e, s') | (Inr x, s') \<Rightarrow> k x s')"

text \<open>\<open>try: m except Exception as e: handler\<close>\<close>

definition try_except :: "'a action \<Rightarrow> (error \<Rightarrow> 'a action) \<Rightarrow> 'a action" where
  "try_except m handler s =
     (case m s of (Inl e, s') \<Rightarrow> handler e s' | (Inr x, s') \<Rightarrow> (Inr x, s'))"

definition send :: "endpoint \<Rightarrow> unit action" where
  "send ep s = (Inr (), s\<lparr>trace := trace s @ [ep]\<rparr>)"

definition eprint :: "string \<Rightarrow> unit action" where
  "eprint line s = (Inr (), s\<lparr>stderr := stderr s @ [line]\<rparr>)"

text \<open>\<open>get_access_token\<close>\<close>

definition get_access_token :: "json action" where
  "get_access_token s =
     (if truthy (access_token s) then (Inr (access_token s), s)
      else (case token_script s of
              [] \<Rightarrow> (Inl RequestException, s\<lparr>trace := trace s @ [TokenEndpoint]\<rparr>)
            | r # rs \<Rightarrow>
                (case json_of_reply r of
                   Inl e \<Rightarrow> (Inl e, s\<lparr>token_script := rs, trace := trace s @ [TokenEndpoint]\<rparr>)
                 | Inr token_data \<Rightarrow>
                     (case py_getitem token_data ''access_token'' of
                        Inl e \<Rightarrow>
                          (Inl e, s\<lparr>token_script := rs, trace := trace s @ [TokenEndpoint]\<rparr>)
                      | Inr tok \<Rightarrow>
                          (Inr tok, s\<lparr>access_token := tok, token_script := rs,
                                      trace := trace s @ [TokenEndpoint]\<rparr>)))))"

text \<open>\<open>_get_auth_headers\<close>: the headers only shape the request; what matters is that
  building them acquires the token.\<close>

definition get_auth_headers :: "unit action" where
  "get_auth_headers = bindM get_access_token (\<lambda>tok. returnM ())"

text \<open>The shape of every JSON method: headers, request, \<open>raise_for_status\<close>, \<open>json()\<close>.\<close>

definition call_api :: "endpoint \<Rightarrow> api_reply \<Rightarrow> json action" where
  "call_api ep r =
     bindM get_auth_headers (\<lambda>h. bindM (send ep) (\<lambda>u. liftE (json_of_reply r)))"

text \<open>\<open>get_users\<close>\<close>

definition users_of :: "json \<Rightarrow> error + json list" where
  "users_of data =
     (case py_get data ''User'' JNull of
        Inl e \<Rightarrow> Inl e
      | Inr u \<Rightarrow>
          (case u of
             JArr xs \<Rightarrow> Inr xs
           | _ \<Rightarrow> if truthy u then Inr [u] else Inr []))"

definition get_users :: "world \<Rightarrow> json list action" where
  "get_users w = bindM (call_api UserQuery (users_reply w)) (\<lambda>data. liftE (users_of data))"

text \<open>\<open>get_accounts\<close>\<close>

definition get_accounts :: "world \<Rightarrow> int \<Rightarrow> json action" where
  "get_accounts w user_id =
     bindM (call_api (AccountsSearch user_id) (accounts_reply w user_id))
       (\<lambda>data. liftE (py_get data ''Accounts'' (JArr [])))"

text \<open>\<open>d[key] = v\<close>: only a dict takes a string key; an existing key keeps its place.\<close>

fun py_setitem :: "json \<Rightarrow> string \<Rightarrow> json \<Rightarrow> error + json" where
  "py_setitem (JObj kvs) k v = Inr (JObj (AList.update k v kvs))"
| "py_setitem _ k v = Inl TypeError"

fun mapE :: "('a \<Rightarrow> error + 'b) \<Rightarrow> 'a list \<Rightarrow> error + 'b list" where
  "mapE f [] = Inr []"
| "mapE f (x # xs) =
     (case f x of
        Inl e \<Rightarrow> Inl e
      | Inr y \<Rightarrow> (case mapE f xs of Inl e \<Rightarrow> Inl e | Inr ys \<Rightarrow> Inr (y # ys)))"

text \<open>
  \<open>get_campaigns\<close>: the loop that stamps every campaign with the two ids. Iterating a
  dict or a string yields strings, which take no item assignment.
\<close>

definition stamp :: "int \<Rightarrow> int \<Rightarrow> json \<Rightarrow> error + json" where
  "stamp account_id customer_id campaign =
     (case py_setitem campaign ''AccountId'' (JInt account_id) of
        Inl e \<Rightarrow> Inl e
      | Inr c \<Rightarrow> py_setitem c ''CustomerId'' (JInt customer_id))"

fun stamp_all :: "int \<Rightarrow> int \<Rightarrow> json \<Rightarrow> error + json" where
  "stamp_all account_id customer_id (JArr xs) =
     (case mapE (stamp account_id customer_id) xs of Inl e \<Rightarrow> Inl e | Inr ys \<Rightarrow> Inr (JArr ys))"
| "stamp_all account_id customer_id (JObj kvs) =
     (if kvs = [] then Inr (JObj []) else Inl TypeError)"
| "stamp_all account_id customer_id (JStr s) =
     (if s = [] then Inr (JStr []) else Inl TypeError)"
| "stamp_all account_id customer_id _ = Inl TypeError"

definition get_campaigns :: "world \<Rightarrow> int \<Rightarrow> int \<Rightarrow> json action" where
  "get_campaigns w account_id customer_id =
     bindM (call_api (CampaignsQuery account_id customer_id)
              (campaigns_reply w account_id customer_id))
       (\<lambda>data. bindM (liftE (py_get data ''Campaigns'' (JArr [])))
          (\<lambda>cs. liftE (stamp_all account_id customer_id cs)))"

text \<open>
  \<open>submit_performance_report\<close>: headers first, then the two dates are parsed (an absent
  or empty date is replaced by a default that parses; \<open>strptime\<close> raises \<open>ValueError\<close>
  on a date it rejects), then the request. The report type only shapes the payload.
\<close>

definition date_parses :: "world \<Rightarrow> string option \<Rightarrow> bool" where
  "date_parses w d = (case d of None \<Rightarrow> True | Some x \<Rightarrow> x = [] \<or> valid_date w x)"

definition submit_performance_report ::
  "world \<Rightarrow> int \<Rightarrow> string option \<Rightarrow> string option \<Rightarrow> json action" where
  "submit_performance_report w account_id start_date end_date =
     bindM get_auth_headers (\<lambda>h.
       if date_parses w start_date \<and> date_parses w end_date then
         bindM (send (SubmitReport account_id)) (\<lambda>u.
           bindM (liftE (json_of_reply (submit_reply w account_id)))
             (\<lambda>data. liftE (py_get data ''ReportRequestId'' JNull)))
       else raiseM ValueError)"

text \<open>\<open>poll_report_status\<close>, given the reply the poll gets.\<close>

definition poll_report_status :: "json \<Rightarrow> api_reply \<Rightarrow> json action" where
  "poll_report_status report_request_id r = call_api (PollReport report_request_id) r"

text \<open>
  \<open>download_report\<close>. The exceptions of the \<open>OSError\<close> family: \<open>gzip.BadGzipFile\<close>,
  \<open>TimeoutError\<close>, and the exceptions of \<open>requests\<close>, which derive from \<open>IOError\<close>.
\<close>

fun is_OSError :: "error \<Rightarrow> bool" where
  "is_OSError BadGzipFile = True"
| "is_OSError OSError = True"
| "is_OSError TimeoutError = True"
| "is_OSError RequestException = True"
| "is_OSError (HTTPError st) = True"
| "is_OSError JSONDecodeError = True"
| "is_OSError _ = False"

definition decode_text :: "world \<Rightarrow> bytes \<Rightarrow> error + string" where
  "decode_text w b =
     (case decode_utf8_sig w b of None \<Rightarrow> Inl UnicodeDecodeError | Some t \<Rightarrow> Inr t)"

text \<open>The part of \<open>download_report\<close> after \<open>raise_for_status\<close>, on \<open>response.content\<close>.\<close>

definition decode_report :: "world \<Rightarrow> bytes \<Rightarrow> error + json list" where
  "decode_report w content =
     (case (case gzip_decompress w content of
              Inl e \<Rightarrow> if is_OSError e then decode_text w content else Inl e
            | Inr decompressed \<Rightarrow> decode_text w decompressed) of
        Inl e \<Rightarrow> Inl e
      | Inr text_content \<Rightarrow> dict_reader w text_content)"

text \<open>\<open>requests.get\<close> raises before sending anything when the URL is not a string.\<close>

definition download_report :: "world \<Rightarrow> json \<Rightarrow> json list action" where
  "download_report w download_url =
     (case download_url of
        JStr url \<Rightarrow>
          bindM (send (Download url)) (\<lambda>u.
            case download_reply w url of
              NoReply \<Rightarrow> raiseM RequestException
            | Reply st content \<Rightarrow>
                if raise_for_status st then raiseM (HTTPError st)
                else liftE (decode_report w content))
      | _ \<Rightarrow> raiseM RequestException)"

text \<open>\<open>status_response.get("ReportRequestStatus", {}).get(field)\<close>\<close>

definition report_field :: "string \<Rightarrow> json \<Rightarrow> error + json" where
  "report_field field status_response =
     (case py_get status_response ''ReportRequestStatus'' (JObj []) of
        Inl e \<Rightarrow> Inl e
      | Inr rs \<Rightarrow> py_get rs field JNull)"

text \<open>
  The body of the poll loop after the poll: \<open>Some\<close> of the records when the loop
  returns, \<open>None\<close> when it goes on to sleep.
\<close>

definition after_poll :: "world \<Rightarrow> json \<Rightarrow> json list option action" where
  "after_poll w status_response =
     bindM (liftE (report_field ''Status'' status_response)) (\<lambda>status.
       if status = JStr ''Success'' then
         bindM (liftE (report_field ''ReportDownloadUrl'' status_response)) (\<lambda>download_url.
           bindM (download_report w download_url) (\<lambda>records. returnM (Some records)))
       else if status = JStr ''Error'' then raiseM (ReportGenerationFailed status_response)
       else returnM None)"

text \<open>
  The loop \<open>while time.time() - start_time < max_wait_seconds\<close>. The list holds the
  events of the polls to come; when it is used up the next poll fails to connect
  (so \<open>poll_report_status\<close> raises and the continuation written there is never
  reached). \<open>elapsed\<close> is the reading \<open>time.time() - start_time\<close> of this check.
\<close>

fun poll_loop :: "world \<Rightarrow> json \<Rightarrow> real \<Rightarrow> poll_event list \<Rightarrow> real \<Rightarrow> json list action" where
  "poll_loop w report_id max_wait [] elapsed =
     (if elapsed < max_wait then
        bindM (poll_report_status report_id NoReply) (\<lambda>status_response. raiseM RequestException)
      else raiseM TimeoutError)"
| "poll_loop w report_id max_wait (ev # evs) elapsed =
     (if elapsed < max_wait then
        bindM (poll_report_status report_id (answer ev)) (\<lambda>status_response.
          bindM (after_poll w status_response) (\<lambda>outcome.
            case outcome of
              Some records \<Rightarrow> returnM records
            | None \<Rightarrow> poll_loop w report_id max_wait evs (elapsed + took ev + 10 + overslept ev)))
      else raiseM TimeoutError)"

text \<open>\<open>get_performance_report\<close>\<close>

definition get_performance_report ::
  "world \<Rightarrow> int \<Rightarrow> string option \<Rightarrow> string option \<Rightarrow> real \<Rightarrow> json list action" where
  "get_performance_report w account_id start_date end_date max_wait_seconds =
     bindM (submit_performance_report w account_id start_date end_date) (\<lambda>report_id.
       poll_loop w report_id max_wait_seconds (poll_events w report_id) (entry_delay w))"

subsection \<open>The orchestrator\<close>

text \<open>\<open>int(x)\<close> on a JSON value.\<close>

fun py_int :: "world \<Rightarrow> json \<Rightarrow> error + int" where
  "py_int w (JInt n) = Inr n"
| "py_int w (JBool b) = Inr (if b then 1 else 0)"
| "py_int w (JStr s) = (case str_to_int w s of None \<Rightarrow> Inl ValueError | Some n \<Rightarrow> Inr n)"
| "py_int w _ = Inl TypeError"

text \<open>The result document (its \<open>extracted_at\<close> time stamp is left out).\<close>

record extraction =
  users :: "json list"
  accounts :: "json list"
  campaigns :: "json list"
  performance_reports :: "json list"

text \<open>The first \<open>try\<close> block of the account loop and its handler.\<close>

definition fetch_campaigns_into :: "world \<Rightarrow> json \<Rightarrow> json \<Rightarrow> extraction \<Rightarrow> extraction action" where
  "fetch_campaigns_into w account_id customer_id res =
     try_except
       (bindM (liftE (py_int w account_id)) (\<lambda>aid.
          bindM (liftE (py_int w customer_id)) (\<lambda>cid.
            bindM (get_campaigns w aid cid) (\<lambda>cs.
              bindM (liftE (py_iter cs)) (\<lambda>items.
                returnM (res\<lparr>campaigns := campaigns res @ items\<rparr>))))))
       (\<lambda>e. bindM (eprint ''Error fetching campaigns for account'') (\<lambda>u. returnM res))"

text \<open>The second \<open>try\<close> block and its handler; \<open>max_wait_seconds\<close> is left at its
  default of 300.\<close>

definition fetch_report_into ::
  "world \<Rightarrow> string option \<Rightarrow> string option \<Rightarrow> json \<Rightarrow> json \<Rightarrow> extraction \<Rightarrow> extraction action" where
  "fetch_report_into w start_date end_date account_id account_name res =
     try_except
       (bindM (liftE (py_int w account_id)) (\<lambda>aid.
          bindM (get_performance_report w aid start_date end_date 300) (\<lambda>report_data.
            returnM (res\<lparr>performance_reports := performance_reports res @
              [JObj [(''account_id'', account_id), (''account_name'', account_name),
                     (''report_type'', JStr ''campaign_performance''),
                     (''data'', JArr report_data)]]\<rparr>))))
       (\<lambda>e. bindM (eprint ''Error fetching performance report for account'') (\<lambda>u. returnM res))"

text \<open>The body of \<open>for account in accounts\<close>.\<close>

definition account_body ::
  "world \<Rightarrow> bool \<Rightarrow> string option \<Rightarrow> string option \<Rightarrow> json \<Rightarrow> extraction \<Rightarrow> extraction action" where
  "account_body w include_performance_reports start_date end_date account res =
     bindM (liftE (py_get account ''Id'' JNull)) (\<lambda>account_id.
       bindM (liftE (py_get account ''ParentCustomerId'' JNull)) (\<lambda>customer_id.
         bindM (liftE (py_get account ''Name'' JNull)) (\<lambda>account_name.
           if \<not> truthy account_id \<or> \<not> truthy customer_id then returnM res
           else bindM (fetch_campaigns_into w account_id customer_id res) (\<lambda>res1.
                  if include_performance_reports
                  then fetch_report_into w start_date end_date account_id account_name res1
                  else returnM res1))))"

fun accounts_loop ::
  "world \<Rightarrow> bool \<Rightarrow> string option \<Rightarrow> string option \<Rightarrow> json list \<Rightarrow> extraction \<Rightarrow> extraction action" where
  "accounts_loop w inc start_date end_date [] res = returnM res"
| "accounts_loop w inc start_date end_date (account # rest) res =
     bindM (account_body w inc start_date end_date account res)
       (accounts_loop w inc start_date end_date rest)"

text \<open>The body of \<open>for user in users\<close>.\<close>

definition user_body ::
  "world \<Rightarrow> bool \<Rightarrow> string option \<Rightarrow> string option \<Rightarrow> json \<Rightarrow> extraction \<Rightarrow> extraction action" where
  "user_body w inc start_date end_date user res =
     bindM (liftE (py_get user ''Id'' JNull)) (\<lambda>user_id.
       if \<not> truthy user_id then returnM res
       else bindM (liftE (py_int w user_id)) (\<lambda>uid.
              bindM (get_accounts w uid) (\<lambda>accts.
                bindM (liftE (py_iter accts)) (\<lambda>account_list.
                  accounts_loop w inc start_date end_date account_list
                    (res\<lparr>accounts := accounts res @ account_list\<rparr>)))))"

fun users_loop ::
  "world \<Rightarrow> bool \<Rightarrow> string option \<Rightarrow> string option \<Rightarrow> json list \<Rightarrow> extraction \<Rightarrow> extraction action" where
  "users_loop w inc start_date end_date [] res = returnM res"
| "users_loop w inc start_date end_date (user # rest) res =
     bindM (user_body w inc start_date end_date user res)
       (users_loop w inc start_date end_date rest)"

text \<open>\<open>extract_all\<close>\<close>

definition extract_all ::
  "world \<Rightarrow> bool \<Rightarrow> string option \<Rightarrow> string option \<Rightarrow> extraction action" where
  "extract_all w include_performance_reports start_date end_date =
     bindM (get_users w) (\<lambda>user_list.
       users_loop w include_performance_reports start_date end_date user_list
         \<lparr> users = user_list, accounts = [], campaigns = [], performance_reports = [] \<rparr>)"

subsection \<open>Notions used in the statements and proofs\<close>

text \<open>
  An action is quiet when, on every session whose token is cached, it gives one fixed
  outcome, sends one fixed list of requests, none of them to the token endpoint, writes
  one fixed list of error lines, and changes nothing else.
\<close>

definition quiet :: "'a action \<Rightarrow> bool" where
  "quiet m \<longleftrightarrow>
     (\<exists>r t l. TokenEndpoint \<notin> set t \<and>
        (\<forall>s. truthy (access_token s) \<longrightarrow>
           m s = (r, s\<lparr>trace := trace s @ t, stderr := stderr s @ l\<rparr>)))"

text \<open>
  A payload is plain when \<open>gzip.decompress\<close> does not take it for a gzip file: it
  raises \<open>BadGzipFile\<close> (or another \<open>OSError\<close>), or, on the empty payload, returns the
  payload itself.
\<close>

definition plain_payload :: "world \<Rightarrow> bytes \<Rightarrow> bool" where
  "plain_payload w b =
     (case gzip_decompress w b of Inl e \<Rightarrow> is_OSError e | Inr d \<Rightarrow> d = b)"

text \<open>
  A world in which no endpoint answers and every library call fails; the concrete
  worlds of the examples below are updates of it.
\<close>

definition offline :: world where
  "offline =
     \<lparr> users_reply = NoReply,
       accounts_reply = (\<lambda>user_id. NoReply),
       campaigns_reply = (\<lambda>account_id customer_id. NoReply),
       submit_reply = (\<lambda>account_id. NoReply),
       poll_events = (\<lambda>report_id. []),
       entry_delay = 0,
       download_reply = (\<lambda>url. NoReply),
       str_to_int = (\<lambda>s. None),
       valid_date = (\<lambda>d. False),
       gzip_decompress = (\<lambda>b. Inl BadGzipFile),
       decode_utf8_sig = (\<lambda>b. None),
       dict_reader = (\<lambda>t. Inl CsvError) \<rparr>"

text \<open>
  A poll is pending when it is answered with a status other than \<open>Success\<close> and
  \<open>Error\<close>, settled when it is answered with one of the two.
\<close>

definition pending :: "api_reply \<Rightarrow> bool" where
  "pending r =
     (case json_of_reply r of
        Inl e \<Rightarrow> False
      | Inr status_response \<Rightarrow>
          (case report_field ''Status'' status_response of
             Inl e \<Rightarrow> False
           | Inr status \<Rightarrow> status \<noteq> JStr ''Success'' \<and> status \<noteq> JStr ''Error''))"

definition settled :: "api_reply \<Rightarrow> bool" where
  "settled r =
     (case json_of_reply r of
        Inl e \<Rightarrow> False
      | Inr status_response \<Rightarrow>
          (case report_field ''Status'' status_response of
             Inl e \<Rightarrow> False
           | Inr status \<Rightarrow> status = JStr ''Success'' \<or> status = JStr ''Error''))"

text \<open>
  The clock of the poll loop: the reading of the check that follows the given
  iterations, and whether the check before each of them finds the budget unspent.
\<close>

fun elapsed_after :: "real \<Rightarrow> poll_event list \<Rightarrow> real" where
  "elapsed_after e [] = e"
| "elapsed_after e (ev # evs) = elapsed_after (e + took ev + 10 + overslept ev) evs"

fun budget_lasts :: "real \<Rightarrow> real \<Rightarrow> poll_event list \<Rightarrow> bool" where
  "budget_lasts max_wait e [] = True"
| "budget_lasts max_wait e (ev # evs) =
     (e < max_wait \<and> budget_lasts max_wait (e + took ev + 10 + overslept ev) evs)"

text \<open>
  The reading of the clock at the moment the first settled answer comes back, when the
  polls are issued one after the other from the reading \<open>e\<close> on.
\<close>

fun first_settled_at :: "real \<Rightarrow> poll_event list \<Rightarrow> real option" where
  "first_settled_at e [] = None"
| "first_settled_at e (ev # evs) =
     (if settled (answer ev) then Some (e + took ev)
      else first_settled_at (e + took ev + 10 + overslept ev) evs)"

text \<open>
  A session acquires the token \<open>tok\<close> when it holds none, and the next reply of the
  token endpoint is a success whose body carries the non-empty \<open>tok\<close> under
  \<open>access_token\<close>; \<open>rs\<close> are the replies left after it.
\<close>

definition acquires :: "session \<Rightarrow> api_reply list \<Rightarrow> json \<Rightarrow> bool" where
  "acquires s rs tok \<longleftrightarrow>
     \<not> truthy (access_token s) \<and> truthy tok
     \<and> (case token_script s of
           [] \<Rightarrow> False
         | r # rest \<Rightarrow>
             rest = rs
             \<and> (case json_of_reply r of
                  Inl e \<Rightarrow> False
                | Inr token_data \<Rightarrow> py_getitem token_data ''access_token'' = Inr tok))"

text \<open>
  What one account contributes to the result: the document that the body of the account
  loop makes of the empty document when it runs on this account alone.
\<close>

definition alone ::
  "world \<Rightarrow> bool \<Rightarrow> string option \<Rightarrow> string option \<Rightarrow> session \<Rightarrow> json \<Rightarrow> extraction" where
  "alone w inc start_date end_date s account =
     (case fst (account_body w inc start_date end_date account
                  \<lparr> users = [], accounts = [], campaigns = [], performance_reports = [] \<rparr> s) of
        Inl e \<Rightarrow> \<lparr> users = [], accounts = [], campaigns = [], performance_reports = [] \<rparr>
      | Inr res \<Rightarrow> res)"

fun is_object :: "json \<Rightarrow> bool" where
  "is_object (JObj kvs) = True"
| "is_object _ = False"

text \<open>
  An action on the result document adds \<open>c\<close> and \<open>p\<close> when, on every session whose
  token is cached, it returns the document with \<open>c\<close> appended to the campaigns and \<open>p\<close>
  to the performance reports, and is quiet otherwise.
\<close>

definition adds :: "(extraction \<Rightarrow> extraction action) \<Rightarrow> json list \<Rightarrow> json list \<Rightarrow> bool" where
  "adds f c p \<longleftrightarrow>
     (\<exists>t l. TokenEndpoint \<notin> set t \<and>
        (\<forall>res s. truthy (access_token s) \<longrightarrow>
           f res s = (Inr (res\<lparr>campaigns := campaigns res @ c,
                                performance_reports := performance_reports res @ p\<rparr>),
                      s\<lparr>trace := trace s @ t, stderr := stderr s @ l\<rparr>)))"






section \<open>Properties of the Amazon Ads fetcher\<close>

lemma REGION_URLS_lookup:
  "map_of REGION_URLS reg =
     (if reg = ''NA'' then Some ''https://advertising-api.amazon.com''
      else if reg = ''EU'' then Some ''https://advertising-api-eu.amazon.com''
      else if reg = ''FE'' then Some ''https://advertising-api-fe.amazon.com''
      else None)"
  by (simp add: REGION_URLS_def)

text \<open>
  C10. Constructing the fetcher never fails. A region code outside NA, EU and FE
  selects the NA base URL; each of the three known codes selects its own URL.
\<close>

theorem init_region_base_url:
  "(reg \<notin> {''NA'', ''EU'', ''FE''} \<longrightarrow>
      (\<exists>f. AmazonAdsFetcher_init cid secret rtoken reg = Inr f
           \<and> region f = reg
           \<and> base_url f = ''https://advertising-api.amazon.com''))
   \<and> (\<exists>f. AmazonAdsFetcher_init cid secret rtoken ''NA'' = Inr f
           \<and> base_url f = ''https://advertising-api.amazon.com'')
   \<and> (\<exists>f. AmazonAdsFetcher_init cid secret rtoken ''EU'' = Inr f
           \<and> base_url f = ''https://advertising-api-eu.amazon.com'')
   \<and> (\<exists>f. AmazonAdsFetcher_init cid secret rtoken ''FE'' = Inr f
           \<and> base_url f = ''https://advertising-api-fe.amazon.com'')"
  by (simp add: AmazonAdsFetcher_init_def REGION_URLS_lookup)

theorem init_region_base_url_witness:
  "\<exists>f. AmazonAdsFetcher_init ''id'' ''secret'' ''rt'' ''XX'' = Inr f
       \<and> region f = ''XX''
       \<and> base_url f = ''https://advertising-api.amazon.com''"
  using init_region_base_url [of "''XX''" "''id''" "''secret''" "''rt''"] by simp

text \<open>
  C5, at the input where the Amazon code departs from it: the token endpoint answers
  200 with a JSON object that has no \<open>access_token\<close> field. The refresh returns
  \<open>None\<close> as a normal result, stores it as the bearer, and logs nothing.
\<close>

theorem refresh_access_token_missing_field:
  "refresh_access_token self (Reply 200 (Some (JObj [(''error'', JStr ''invalid_grant'')])))
     = (Inr JNull, self\<lparr>access_token := JNull\<rparr>, [])"
  by (simp add: refresh_access_token_def raise_for_status_def)

subsection \<open>The page loops\<close>

lemma while_true_prefix:
  assumes "list_all2 (\<lambda>r p. \<forall>s. \<exists>m. body s r = Inr (Continue (m, snd s @ p))) rs pages"
  shows "\<exists>m. while_true body (rs @ rest) (m0, acc) calls
            = while_true body rest (m, acc @ concat pages) (calls + length rs)"
  using assms
proof (induction rs pages arbitrary: m0 acc calls rule: list_all2_induct)
  case Nil
  show ?case by (rule exI [of _ m0]) simp
next
  case (Cons r rs p ps)
  from Cons.hyps(1) obtain m1 where step: "body (m0, acc) r = Inr (Continue (m1, acc @ p))"
    by fastforce
  from Cons.IH [of m1 "acc @ p" "Suc calls"] obtain m where
    "while_true body (rs @ rest) (m1, acc @ p) (Suc calls)
       = while_true body rest (m, (acc @ p) @ concat ps) (Suc calls + length rs)"
    by blast
  with step show ?case by auto
qed

lemma sd_iteration_full:
  "json_of_reply r = Inr (JArr p) \<Longrightarrow> 100 \<le> length p \<Longrightarrow>
     sd_iteration s r = Inr (Continue (fst s + 100, snd s @ p))"
  by (cases s) auto

lemma sd_iteration_short:
  "json_of_reply r = Inr (JArr p) \<Longrightarrow> length p < 100 \<Longrightarrow>
     sd_iteration s r = Inr (Break (fst s, snd s @ p))"
  by (cases s) auto

lemma sd_iteration_fails:
  "json_of_reply r = Inl e \<Longrightarrow> sd_iteration s r = Inl e"
  by (cases s) auto

lemma keyed_page_items:
  assumes "json_of_reply r = Inr data" and "items_under ik r = Some p"
  shows "keyed_page ik mk s data =
           Inr (case marker_under mk r of
                  None \<Rightarrow> Break (fst s, snd s @ p)
                | Some m \<Rightarrow> Continue (Some m, snd s @ p))"
  using assms
  by (cases data)
     (auto simp: keyed_page_def items_under_def marker_under_def extend_if_present_def
        next_marker_def split: option.splits json.splits)

lemma campaigns_iteration_page:
  assumes "items_under ''campaigns'' r = Some p"
  shows "campaigns_iteration s r =
           Inr (case marker_under ''nextToken'' r of
                  None \<Rightarrow> Break (fst s, snd s @ p)
                | Some m \<Rightarrow> Continue (Some m, snd s @ p))"
proof -
  from assms obtain data where "json_of_reply r = Inr data"
    by (auto simp: items_under_def split: sum.splits)
  with assms show ?thesis
    by (simp add: campaigns_iteration_def keyed_page_items)
qed

lemma attribution_iteration_page:
  assumes "items_under ''reports'' r = Some p"
  shows "attribution_iteration s r =
           Inr (case marker_under ''cursorId'' r of
                  None \<Rightarrow> Break (fst s, snd s @ p)
                | Some m \<Rightarrow> Continue (Some m, snd s @ p))"
proof -
  from assms obtain data where d: "json_of_reply r = Inr data"
    by (auto simp: items_under_def split: sum.splits)
  then obtain st body where r: "r = Reply st body" and "\<not> raise_for_status st"
    by (cases r) (auto split: if_splits)
  then have "st \<noteq> 400" by (auto simp: raise_for_status_def)
  with r d assms show ?thesis
    using keyed_page_items [of r data "''reports''" p "''cursorId''" s] by simp
qed

lemma campaigns_iteration_fails:
  "json_of_reply r = Inl e \<Longrightarrow> campaigns_iteration s r = Inl e"
  by (simp add: campaigns_iteration_def)

lemma attribution_iteration_fails:
  "json_of_reply r = Inl e \<Longrightarrow> \<not> status_400 r \<Longrightarrow> attribution_iteration s r = Inl e"
  by (cases r) (auto simp: status_400_def)

lemma attribution_iteration_400:
  "status_400 r \<Longrightarrow> attribution_iteration s r = Inr (Break s)"
  by (cases r) (auto simp: status_400_def)

lemma sd_prefix:
  assumes "full_pages rs pages"
  shows "\<exists>m. while_true sd_iteration (rs @ rest) (m0, acc) calls
            = while_true sd_iteration rest (m, acc @ concat pages) (calls + length rs)"
proof (rule while_true_prefix)
  show "list_all2 (\<lambda>r p. \<forall>s. \<exists>m. sd_iteration s r = Inr (Continue (m, snd s @ p))) rs pages"
    using assms unfolding full_pages_def
    by (rule list_all2_mono) (auto simp: sd_iteration_full)
qed

lemma campaigns_prefix:
  assumes "continuing_pages ''campaigns'' ''nextToken'' rs pages"
  shows "\<exists>m. while_true campaigns_iteration (rs @ rest) (m0, acc) calls
            = while_true campaigns_iteration rest (m, acc @ concat pages) (calls + length rs)"
proof (rule while_true_prefix)
  show "list_all2 (\<lambda>r p. \<forall>s. \<exists>m. campaigns_iteration s r = Inr (Continue (m, snd s @ p))) rs pages"
    using assms unfolding continuing_pages_def
    by (rule list_all2_mono) (auto simp: campaigns_iteration_page)
qed

lemma attribution_prefix:
  assumes "continuing_pages ''reports'' ''cursorId'' rs pages"
  shows "\<exists>m. while_true attribution_iteration (rs @ rest) (m0, acc) calls
            = while_true attribution_iteration rest (m, acc @ concat pages) (calls + length rs)"
proof (rule while_true_prefix)
  show "list_all2 (\<lambda>r p. \<forall>s. \<exists>m. attribution_iteration s r = Inr (Continue (m, snd s @ p))) rs pages"
    using assms unfolding continuing_pages_def
    by (rule list_all2_mono) (auto simp: attribution_iteration_page)
qed

text \<open>What a loop does after a prefix of continuing pages, by the outcome of the
  iteration that follows.\<close>

lemma while_true_then_break:
  assumes "\<exists>m. while_true body (rs @ l # rest) (m0, acc) calls
            = while_true body (l # rest) (m, acc') (calls + length rs)"
    and "\<And>s. \<exists>m. body s l = Inr (Break (m, snd s @ lp))"
  shows "\<exists>m. while_true body (rs @ l # rest) (m0, acc) calls
            = (Inr (m, acc' @ lp), Suc (length rs) + calls)"
proof -
  from assms(1) obtain m where run:
    "while_true body (rs @ l # rest) (m0, acc) calls
       = while_true body (l # rest) (m, acc') (calls + length rs)" ..
  from assms(2) [of "(m, acc')"] obtain m' where "body (m, acc') l = Inr (Break (m', acc' @ lp))"
    by auto
  with run show ?thesis by auto
qed

lemma while_true_then_raise:
  assumes "\<exists>m. while_true body (rs @ l # rest) (m0, acc) calls
            = while_true body (l # rest) (m, acc') (calls + length rs)"
    and "\<And>s. body s l = Inl e"
  shows "while_true body (rs @ l # rest) (m0, acc) calls = (Inl e, Suc (length rs) + calls)"
  using assms by auto

lemma sd_fetch_pages:
  assumes "full_pages rs pages" and "short_page l lp"
  shows "get_sponsored_display_campaigns (rs @ l # rest)
           = (concat pages @ lp, Suc (length rs), [])"
proof -
  have "\<exists>m. while_true sd_iteration (rs @ l # rest) (0, []) 0
          = (Inr (m, (concat pages) @ lp), Suc (length rs) + 0)"
  proof (rule while_true_then_break)
    show "\<exists>m. while_true sd_iteration (rs @ l # rest) (0, []) 0
            = while_true sd_iteration (l # rest) (m, concat pages) (0 + length rs)"
      using sd_prefix [OF assms(1), of "l # rest" 0 "[]" 0] by simp
    show "\<exists>m. sd_iteration s l = Inr (Break (m, snd s @ lp))" for s
      using assms(2) by (simp add: short_page_def sd_iteration_short)
  qed
  then show ?thesis by (auto simp: get_sponsored_display_campaigns_def)
qed

lemma sd_fetch_fails:
  assumes "full_pages rs pages" and "request_fails l"
  shows "get_sponsored_display_campaigns (rs @ l # rest)
           = ([], Suc (length rs), [''Error fetching Sponsored Display campaigns''])"
proof -
  from assms(2) obtain e where e: "json_of_reply l = Inl e"
    by (auto simp: request_fails_def split: sum.splits)
  have "while_true sd_iteration (rs @ l # rest) (0, []) 0 = (Inl e, Suc (length rs) + 0)"
  proof (rule while_true_then_raise)
    show "\<exists>m. while_true sd_iteration (rs @ l # rest) (0, []) 0
            = while_true sd_iteration (l # rest) (m, concat pages) (0 + length rs)"
      using sd_prefix [OF assms(1), of "l # rest" 0 "[]" 0] by simp
    show "sd_iteration s l = Inl e" for s
      using e by (rule sd_iteration_fails)
  qed
  then show ?thesis by (simp add: get_sponsored_display_campaigns_def)
qed

lemma campaigns_loop_pages:
  assumes "continuing_pages ''campaigns'' ''nextToken'' rs pages"
    and "final_page ''campaigns'' ''nextToken'' l lp"
  shows "\<exists>m. while_true campaigns_iteration (rs @ l # rest) (None, []) 0
           = (Inr (m, concat pages @ lp), Suc (length rs))"
proof -
  have "\<exists>m. while_true campaigns_iteration (rs @ l # rest) (None, []) 0
          = (Inr (m, (concat pages) @ lp), Suc (length rs) + 0)"
  proof (rule while_true_then_break)
    show "\<exists>m. while_true campaigns_iteration (rs @ l # rest) (None, []) 0
            = while_true campaigns_iteration (l # rest) (m, concat pages) (0 + length rs)"
      using campaigns_prefix [OF assms(1), of "l # rest" None "[]" 0] by simp
    show "\<exists>m. campaigns_iteration s l = Inr (Break (m, snd s @ lp))" for s
      using assms(2) by (simp add: final_page_def campaigns_iteration_page)
  qed
  then show ?thesis by simp
qed

lemma campaigns_loop_fails:
  assumes "continuing_pages ''campaigns'' ''nextToken'' rs pages" and "request_fails l"
  shows "\<exists>e. while_true campaigns_iteration (rs @ l # rest) (None, []) 0
           = (Inl e, Suc (length rs))"
proof -
  from assms(2) obtain e where e: "json_of_reply l = Inl e"
    by (auto simp: request_fails_def split: sum.splits)
  have "while_true campaigns_iteration (rs @ l # rest) (None, []) 0
          = (Inl e, Suc (length rs) + 0)"
  proof (rule while_true_then_raise)
    show "\<exists>m. while_true campaigns_iteration (rs @ l # rest) (None, []) 0
            = while_true campaigns_iteration (l # rest) (m, concat pages) (0 + length rs)"
      using campaigns_prefix [OF assms(1), of "l # rest" None "[]" 0] by simp
    show "campaigns_iteration s l = Inl e" for s
      using e by (rule campaigns_iteration_fails)
  qed
  then show ?thesis by simp
qed

lemma attribution_loop_pages:
  assumes "continuing_pages ''reports'' ''cursorId'' rs pages"
    and "final_page ''reports'' ''cursorId'' l lp"
  shows "\<exists>m. while_true attribution_iteration (rs @ l # rest) (None, []) 0
           = (Inr (m, concat pages @ lp), Suc (length rs))"
proof -
  have "\<exists>m. while_true attribution_iteration (rs @ l # rest) (None, []) 0
          = (Inr (m, (concat pages) @ lp), Suc (length rs) + 0)"
  proof (rule while_true_then_break)
    show "\<exists>m. while_true attribution_iteration (rs @ l # rest) (None, []) 0
            = while_true attribution_iteration (l # rest) (m, concat pages) (0 + length rs)"
      using attribution_prefix [OF assms(1), of "l # rest" None "[]" 0] by simp
    show "\<exists>m. attribution_iteration s l = Inr (Break (m, snd s @ lp))" for s
      using assms(2) by (simp add: final_page_def attribution_iteration_page)
  qed
  then show ?thesis by simp
qed

lemma attribution_loop_400:
  assumes "continuing_pages ''reports'' ''cursorId'' rs pages" and "status_400 l"
  shows "\<exists>m. while_true attribution_iteration (rs @ l # rest) (None, []) 0
           = (Inr (m, concat pages), Suc (length rs))"
proof -
  have "\<exists>m. while_true attribution_iteration (rs @ l # rest) (None, []) 0
          = (Inr (m, (concat pages) @ []), Suc (length rs) + 0)"
  proof (rule while_true_then_break)
    show "\<exists>m. while_true attribution_iteration (rs @ l # rest) (None, []) 0
            = while_true attribution_iteration (l # rest) (m, concat pages) (0 + length rs)"
      using attribution_prefix [OF assms(1), of "l # rest" None "[]" 0] by simp
    show "\<exists>m. attribution_iteration s l = Inr (Break (m, snd s @ []))" for s
      using assms(2) by (cases s) (simp add: attribution_iteration_400)
  qed
  then show ?thesis by simp
qed

lemma attribution_loop_fails:
  assumes "continuing_pages ''reports'' ''cursorId'' rs pages"
    and "request_fails l" and "\<not> status_400 l"
  shows "\<exists>e. while_true attribution_iteration (rs @ l # rest) (None, []) 0
           = (Inl e, Suc (length rs))"
proof -
  from assms(2) obtain e where e: "json_of_reply l = Inl e"
    by (auto simp: request_fails_def split: sum.splits)
  have "while_true attribution_iteration (rs @ l # rest) (None, []) 0
          = (Inl e, Suc (length rs) + 0)"
  proof (rule while_true_then_raise)
    show "\<exists>m. while_true attribution_iteration (rs @ l # rest) (None, []) 0
            = while_true attribution_iteration (l # rest) (m, concat pages) (0 + length rs)"
      using attribution_prefix [OF assms(1), of "l # rest" None "[]" 0] by simp
    show "attribution_iteration s l = Inl e" for s
      using e assms(3) by (rule attribution_iteration_fails)
  qed
  then show ?thesis by simp
qed


text \<open>
  C1. On a script whose first replies are continuing pages (full pages for the offset
  fetch, pages with a non-empty \<open>nextToken\<close> or \<open>cursorId\<close> for the other two) followed
  by a terminal page (a page of fewer than 100 items, the empty page included; a page
  whose \<open>nextToken\<close> or \<open>cursorId\<close> is absent or empty), each fetch returns the
  concatenation of the item lists of all these pages in arrival order, issues one
  request per page and none after the terminal page (whatever \<open>rest\<close> the server would
  have answered), and logs nothing.
\<close>

theorem paginated_fetch_concatenates_pages:
  "(full_pages rs pages \<and> short_page l lp \<longrightarrow>
      get_sponsored_display_campaigns (rs @ l # rest)
        = (concat (pages @ [lp]), length rs + 1, []))
   \<and> (continuing_pages ''campaigns'' ''nextToken'' rs pages
        \<and> final_page ''campaigns'' ''nextToken'' l lp \<longrightarrow>
      get_sponsored_brands_campaigns (rs @ l # rest)
        = (concat (pages @ [lp]), length rs + 1, [])
      \<and> get_sponsored_products_campaigns (rs @ l # rest)
        = (concat (pages @ [lp]), length rs + 1, []))
   \<and> (continuing_pages ''reports'' ''cursorId'' rs pages
        \<and> final_page ''reports'' ''cursorId'' l lp \<longrightarrow>
      get_attribution_performance_campaign (rs @ l # rest)
        = (concat (pages @ [lp]), length rs + 1, []))"
proof (intro conjI impI)
  assume "full_pages rs pages \<and> short_page l lp"
  then show "get_sponsored_display_campaigns (rs @ l # rest)
               = (concat (pages @ [lp]), length rs + 1, [])"
    using sd_fetch_pages [of rs pages l lp rest] by simp
next
  assume h: "continuing_pages ''campaigns'' ''nextToken'' rs pages
               \<and> final_page ''campaigns'' ''nextToken'' l lp"
  then obtain m where
    "while_true campaigns_iteration (rs @ l # rest) (None, []) 0
       = (Inr (m, concat pages @ lp), Suc (length rs))"
    using campaigns_loop_pages by blast
  then show "get_sponsored_brands_campaigns (rs @ l # rest)
               = (concat (pages @ [lp]), length rs + 1, [])"
    and "get_sponsored_products_campaigns (rs @ l # rest)
               = (concat (pages @ [lp]), length rs + 1, [])"
    by (simp_all add: get_sponsored_brands_campaigns_def get_sponsored_products_campaigns_def)
next
  assume "continuing_pages ''reports'' ''cursorId'' rs pages
            \<and> final_page ''reports'' ''cursorId'' l lp"
  then obtain m where
    "while_true attribution_iteration (rs @ l # rest) (None, []) 0
       = (Inr (m, concat pages @ lp), Suc (length rs))"
    using attribution_loop_pages by blast
  then show "get_attribution_performance_campaign (rs @ l # rest)
               = (concat (pages @ [lp]), length rs + 1, [])"
    by (simp add: get_attribution_performance_campaign_def)
qed

theorem paginated_fetch_concatenates_pages_witness:
  "get_sponsored_display_campaigns
     [Reply 200 (Some (JArr (replicate 100 (JStr ''a'')))),
      Reply 200 (Some (JArr (replicate 40 (JStr ''b'')))),
      Reply 200 (Some (JArr [JStr ''never requested'']))]
     = (replicate 100 (JStr ''a'') @ replicate 40 (JStr ''b''), 2, [])
   \<and> get_sponsored_brands_campaigns
     [Reply 200 (Some (JObj [(''campaigns'', JArr [JInt 1, JInt 2]), (''nextToken'', JStr ''t1'')])),
      Reply 200 (Some (JObj [(''campaigns'', JArr [JInt 2, JInt 3])])),
      Reply 200 (Some (JObj [(''campaigns'', JArr [JInt 4])]))]
     = ([JInt 1, JInt 2, JInt 2, JInt 3], 2, [])
   \<and> get_sponsored_products_campaigns
     [Reply 200 (Some (JObj [(''campaigns'', JArr [JInt 1, JInt 2]), (''nextToken'', JStr ''t1'')])),
      Reply 200 (Some (JObj [(''campaigns'', JArr [JInt 2, JInt 3])])),
      Reply 200 (Some (JObj [(''campaigns'', JArr [JInt 4])]))]
     = ([JInt 1, JInt 2, JInt 2, JInt 3], 2, [])
   \<and> get_attribution_performance_campaign
     [Reply 200 (Some (JObj [(''reports'', JArr [JInt 7]), (''cursorId'', JStr ''c1'')])),
      Reply 200 (Some (JObj [(''reports'', JArr [JInt 8]), (''cursorId'', JStr [])])),
      Reply 200 (Some (JObj [(''reports'', JArr [JInt 9])]))]
     = ([JInt 7, JInt 8], 2, [])"
proof -
  have sd: "full_pages [Reply 200 (Some (JArr (replicate 100 (JStr ''a''))))]
              [replicate 100 (JStr ''a'')]
            \<and> short_page (Reply 200 (Some (JArr (replicate 40 (JStr ''b'')))))
                (replicate 40 (JStr ''b''))"
    by (simp add: full_pages_def short_page_def raise_for_status_def)
  have sb: "continuing_pages ''campaigns'' ''nextToken''
              [Reply 200 (Some (JObj [(''campaigns'', JArr [JInt 1, JInt 2]),
                                      (''nextToken'', JStr ''t1'')]))]
              [[JInt 1, JInt 2]]
            \<and> final_page ''campaigns'' ''nextToken''
                (Reply 200 (Some (JObj [(''campaigns'', JArr [JInt 2, JInt 3])])))
                [JInt 2, JInt 3]"
    by (simp add: continuing_pages_def final_page_def items_under_def marker_under_def
          raise_for_status_def)
  have at: "continuing_pages ''reports'' ''cursorId''
              [Reply 200 (Some (JObj [(''reports'', JArr [JInt 7]), (''cursorId'', JStr ''c1'')]))]
              [[JInt 7]]
            \<and> final_page ''reports'' ''cursorId''
                (Reply 200 (Some (JObj [(''reports'', JArr [JInt 8]), (''cursorId'', JStr [])])))
                [JInt 8]"
    by (simp add: continuing_pages_def final_page_def items_under_def marker_under_def
          raise_for_status_def)
  from sd sb at show ?thesis
    using paginated_fetch_concatenates_pages
            [of "[Reply 200 (Some (JArr (replicate 100 (JStr ''a''))))]"
                "[replicate 100 (JStr ''a'')]"
                "Reply 200 (Some (JArr (replicate 40 (JStr ''b''))))"
                "replicate 40 (JStr ''b'')"
                "[Reply 200 (Some (JArr [JStr ''never requested'']))]"]
          paginated_fetch_concatenates_pages
            [of "[Reply 200 (Some (JObj [(''campaigns'', JArr [JInt 1, JInt 2]),
                                         (''nextToken'', JStr ''t1'')]))]"
                "[[JInt 1, JInt 2]]"
                "Reply 200 (Some (JObj [(''campaigns'', JArr [JInt 2, JInt 3])]))"
                "[JInt 2, JInt 3]"
                "[Reply 200 (Some (JObj [(''campaigns'', JArr [JInt 4])]))]"]
          paginated_fetch_concatenates_pages
            [of "[Reply 200 (Some (JObj [(''reports'', JArr [JInt 7]), (''cursorId'', JStr ''c1'')]))]"
                "[[JInt 7]]"
                "Reply 200 (Some (JObj [(''reports'', JArr [JInt 8]), (''cursorId'', JStr [])]))"
                "[JInt 8]"
                "[Reply 200 (Some (JObj [(''reports'', JArr [JInt 9])]))]"]
    by simp
qed


text \<open>
  C2, as stated, at a concrete script: the first Sponsored Brands page holds one
  campaign and a \<open>nextToken\<close>, the second request gets HTTP 500. One item had been
  accumulated before the failure, yet the fetch returns the empty list.
\<close>

theorem failed_page_keeps_nothing_counterexample:
  "continuing_pages ''campaigns'' ''nextToken''
     [Reply 200 (Some (JObj [(''campaigns'', JArr [JStr ''c1'']), (''nextToken'', JStr ''t'')]))]
     [[JStr ''c1'']]
   \<and> request_fails (Reply 500 None)
   \<and> get_sponsored_brands_campaigns
       [Reply 200 (Some (JObj [(''campaigns'', JArr [JStr ''c1'']), (''nextToken'', JStr ''t'')])),
        Reply 500 None]
     = ([], 2, [''Error fetching Sponsored Brands campaigns''])
   \<and> concat [[JStr ''c1'']] \<noteq> ([] :: json list)"
  by (simp add: continuing_pages_def items_under_def marker_under_def request_fails_def
        raise_for_status_def get_sponsored_brands_campaigns_def campaigns_iteration_def
        keyed_page_def extend_if_present_def next_marker_def)

text \<open>
  C2, amended. When the request that follows any number of continuing pages fails (no
  response, an error status, or a body that is not JSON; for the attribution fetch a
  status other than 400), the fetch stops there, returns the empty list, and writes one
  error line: the items of the pages fetched before are dropped.
\<close>

theorem failed_page_returns_empty_list:
  "(full_pages rs pages \<and> request_fails l \<longrightarrow>
      get_sponsored_display_campaigns (rs @ l # rest)
        = ([], length rs + 1, [''Error fetching Sponsored Display campaigns'']))
   \<and> (continuing_pages ''campaigns'' ''nextToken'' rs pages \<and> request_fails l \<longrightarrow>
      get_sponsored_brands_campaigns (rs @ l # rest)
        = ([], length rs + 1, [''Error fetching Sponsored Brands campaigns''])
      \<and> get_sponsored_products_campaigns (rs @ l # rest)
        = ([], length rs + 1, [''Error fetching Sponsored Products campaigns'']))
   \<and> (continuing_pages ''reports'' ''cursorId'' rs pages \<and> request_fails l
        \<and> \<not> status_400 l \<longrightarrow>
      get_attribution_performance_campaign (rs @ l # rest)
        = ([], length rs + 1, [''Error fetching attribution report'']))"
proof (intro conjI impI)
  assume "full_pages rs pages \<and> request_fails l"
  then show "get_sponsored_display_campaigns (rs @ l # rest)
               = ([], length rs + 1, [''Error fetching Sponsored Display campaigns''])"
    using sd_fetch_fails [of rs pages l rest] by simp
next
  assume "continuing_pages ''campaigns'' ''nextToken'' rs pages \<and> request_fails l"
  then obtain e where
    "while_true campaigns_iteration (rs @ l # rest) (None, []) 0 = (Inl e, Suc (length rs))"
    using campaigns_loop_fails by blast
  then show "get_sponsored_brands_campaigns (rs @ l # rest)
               = ([], length rs + 1, [''Error fetching Sponsored Brands campaigns''])"
    and "get_sponsored_products_campaigns (rs @ l # rest)
               = ([], length rs + 1, [''Error fetching Sponsored Products campaigns''])"
    by (simp_all add: get_sponsored_brands_campaigns_def get_sponsored_products_campaigns_def)
next
  assume "continuing_pages ''reports'' ''cursorId'' rs pages \<and> request_fails l
            \<and> \<not> status_400 l"
  then obtain e where
    "while_true attribution_iteration (rs @ l # rest) (None, []) 0 = (Inl e, Suc (length rs))"
    using attribution_loop_fails by blast
  then show "get_attribution_performance_campaign (rs @ l # rest)
               = ([], length rs + 1, [''Error fetching attribution report''])"
    by (simp add: get_attribution_performance_campaign_def)
qed

theorem failed_page_returns_empty_list_witness:
  "get_sponsored_display_campaigns
     [Reply 200 (Some (JArr (replicate 100 (JStr ''a'')))), NoReply]
     = ([], 2, [''Error fetching Sponsored Display campaigns''])
   \<and> get_sponsored_brands_campaigns
     [Reply 200 (Some (JObj [(''campaigns'', JArr [JInt 1]), (''nextToken'', JStr ''t1'')])),
      Reply 503 None]
     = ([], 2, [''Error fetching Sponsored Brands campaigns''])
   \<and> get_sponsored_products_campaigns
     [Reply 200 (Some (JObj [(''campaigns'', JArr [JInt 1]), (''nextToken'', JStr ''t1'')])),
      Reply 503 None]
     = ([], 2, [''Error fetching Sponsored Products campaigns''])
   \<and> get_attribution_performance_campaign
     [Reply 200 (Some (JObj [(''reports'', JArr [JInt 7]), (''cursorId'', JStr ''c1'')])),
      Reply 200 None]
     = ([], 2, [''Error fetching attribution report''])"
proof -
  have sd: "full_pages [Reply 200 (Some (JArr (replicate 100 (JStr ''a''))))]
              [replicate 100 (JStr ''a'')]
            \<and> request_fails NoReply"
    by (simp add: full_pages_def request_fails_def raise_for_status_def)
  have sb: "continuing_pages ''campaigns'' ''nextToken''
              [Reply 200 (Some (JObj [(''campaigns'', JArr [JInt 1]), (''nextToken'', JStr ''t1'')]))]
              [[JInt 1]]
            \<and> request_fails (Reply 503 None)"
    by (simp add: continuing_pages_def items_under_def marker_under_def request_fails_def
          raise_for_status_def)
  have at: "continuing_pages ''reports'' ''cursorId''
              [Reply 200 (Some (JObj [(''reports'', JArr [JInt 7]), (''cursorId'', JStr ''c1'')]))]
              [[JInt 7]]
            \<and> request_fails (Reply 200 None) \<and> \<not> status_400 (Reply 200 None)"
    by (simp add: continuing_pages_def items_under_def marker_under_def request_fails_def
          status_400_def raise_for_status_def)
  from sd sb at show ?thesis
    using failed_page_returns_empty_list
            [of "[Reply 200 (Some (JArr (replicate 100 (JStr ''a''))))]"
                "[replicate 100 (JStr ''a'')]" NoReply "[]"]
          failed_page_returns_empty_list
            [of "[Reply 200 (Some (JObj [(''campaigns'', JArr [JInt 1]),
                                         (''nextToken'', JStr ''t1'')]))]"
                "[[JInt 1]]" "Reply 503 None" "[]"]
          failed_page_returns_empty_list
            [of "[Reply 200 (Some (JObj [(''reports'', JArr [JInt 7]), (''cursorId'', JStr ''c1'')]))]"
                "[[JInt 7]]" "Reply 200 None" "[]"]
    by simp
qed

text \<open>
  C9. In the attribution fetch a reply with status 400, after any number of continuing
  pages, ends the loop without an error: the fetch returns the items of the pages
  before it, has issued no request after it, and logs nothing.
\<close>

theorem attribution_400_ends_cleanly:
  assumes "continuing_pages ''reports'' ''cursorId'' rs pages" and "status_400 l"
  shows "get_attribution_performance_campaign (rs @ l # rest)
           = (concat pages, length rs + 1, [])"
proof -
  from assms obtain m where
    "while_true attribution_iteration (rs @ l # rest) (None, []) 0
       = (Inr (m, concat pages), Suc (length rs))"
    using attribution_loop_400 by blast
  then show ?thesis
    by (simp add: get_attribution_performance_campaign_def)
qed

theorem attribution_400_ends_cleanly_witness:
  "get_attribution_performance_campaign
     [Reply 200 (Some (JObj [(''reports'', JArr [JInt 7, JInt 8]), (''cursorId'', JStr ''c1'')])),
      Reply 200 (Some (JObj [(''reports'', JArr [JInt 9]), (''cursorId'', JStr ''c2'')])),
      Reply 400 None,
      Reply 200 (Some (JObj [(''reports'', JArr [JInt 10])]))]
     = ([JInt 7, JInt 8, JInt 9], 3, [])"
proof -
  have "continuing_pages ''reports'' ''cursorId''
          [Reply 200 (Some (JObj [(''reports'', JArr [JInt 7, JInt 8]), (''cursorId'', JStr ''c1'')])),
           Reply 200 (Some (JObj [(''reports'', JArr [JInt 9]), (''cursorId'', JStr ''c2'')]))]
          [[JInt 7, JInt 8], [JInt 9]]"
    by (simp add: continuing_pages_def items_under_def marker_under_def raise_for_status_def)
  moreover have "status_400 (Reply 400 None)"
    by (simp add: status_400_def)
  ultimately show ?thesis
    using attribution_400_ends_cleanly
            [of "[Reply 200 (Some (JObj [(''reports'', JArr [JInt 7, JInt 8]), (''cursorId'', JStr ''c1'')])),
                  Reply 200 (Some (JObj [(''reports'', JArr [JInt 9]), (''cursorId'', JStr ''c2'')]))]"
                "[[JInt 7, JInt 8], [JInt 9]]" "Reply 400 None"
                "[Reply 200 (Some (JObj [(''reports'', JArr [JInt 10])]))]"]
    by simp
qed

section \<open>Properties of the Bing Ads extractor\<close>

subsection \<open>Actions\<close>

lemma bindM_returnM [simp]: "bindM (returnM x) k = k x"
  by (rule ext) (simp add: bindM_def returnM_def)

lemma bindM_raiseM [simp]: "bindM (raiseM e) k = raiseM e"
  by (rule ext) (simp add: bindM_def raiseM_def)

lemma bindM_liftE_Inr [simp]: "bindM (liftE (Inr x)) k = k x"
  by (rule ext) (simp add: bindM_def liftE_def)

lemma bindM_liftE_Inl [simp]: "bindM (liftE (Inl e)) k = raiseM e"
  by (rule ext) (simp add: bindM_def liftE_def raiseM_def)

lemma bindM_assoc: "bindM (bindM m k) h = bindM m (\<lambda>x. bindM (k x) h)"
  by (rule ext) (simp add: bindM_def split: prod.splits sum.splits)

lemma quietI:
  assumes "TokenEndpoint \<notin> set t"
    and "\<And>s. truthy (access_token s) \<Longrightarrow> m s = (r, s\<lparr>trace := trace s @ t, stderr := stderr s @ l\<rparr>)"
  shows "quiet m"
  unfolding quiet_def using assms by blast

lemma quiet_returnM [intro!, simp]: "quiet (returnM x)"
  by (rule quietI [of "[]" _ "Inr x" "[]"]) (simp_all add: returnM_def)

lemma quiet_raiseM [intro!, simp]: "quiet (raiseM e)"
  by (rule quietI [of "[]" _ "Inl e" "[]"]) (simp_all add: raiseM_def)

lemma quiet_liftE [intro!, simp]: "quiet (liftE r)"
  by (rule quietI [of "[]" _ r "[]"]) (simp_all add: liftE_def)

lemma quiet_eprint [intro!, simp]: "quiet (eprint line)"
  by (rule quietI [of "[]" _ "Inr ()" "[line]"]) (simp_all add: eprint_def)

lemma quiet_send [intro!]: "ep \<noteq> TokenEndpoint \<Longrightarrow> quiet (send ep)"
  by (rule quietI [of "[ep]" _ "Inr ()" "[]"]) (simp_all add: send_def)

lemma get_access_token_cached:
  "truthy (access_token s) \<Longrightarrow> get_access_token s = (Inr (access_token s), s)"
  by (simp add: get_access_token_def)

lemma quiet_get_auth_headers [intro!, simp]: "quiet get_auth_headers"
  by (rule quietI [of "[]" _ "Inr ()" "[]"])
     (simp_all add: get_auth_headers_def bindM_def get_access_token_cached returnM_def)

lemma quiet_bindM [intro!]:
  assumes "quiet m" and "\<And>x. quiet (k x)"
  shows "quiet (bindM m k)"
proof -
  from assms(1) obtain r t l where t: "TokenEndpoint \<notin> set t"
    and m: "\<And>s. truthy (access_token s) \<Longrightarrow>
              m s = (r, s\<lparr>trace := trace s @ t, stderr := stderr s @ l\<rparr>)"
    unfolding quiet_def by blast
  show ?thesis
  proof (cases r)
    case (Inl e)
    show ?thesis
      by (rule quietI [of t _ "Inl e" l]) (simp_all add: t bindM_def m Inl)
  next
    case (Inr x)
    from assms(2) [of x] obtain r' t' l' where t': "TokenEndpoint \<notin> set t'"
      and k: "\<And>s. truthy (access_token s) \<Longrightarrow>
                k x s = (r', s\<lparr>trace := trace s @ t', stderr := stderr s @ l'\<rparr>)"
      unfolding quiet_def by blast
    show ?thesis
      by (rule quietI [of "t @ t'" _ r' "l @ l'"]) (simp_all add: t t' bindM_def m Inr k)
  qed
qed

lemma quiet_try_except [intro!]:
  assumes "quiet m" and "\<And>e. quiet (h e)"
  shows "quiet (try_except m h)"
proof -
  from assms(1) obtain r t l where t: "TokenEndpoint \<notin> set t"
    and m: "\<And>s. truthy (access_token s) \<Longrightarrow>
              m s = (r, s\<lparr>trace := trace s @ t, stderr := stderr s @ l\<rparr>)"
    unfolding quiet_def by blast
  show ?thesis
  proof (cases r)
    case (Inr x)
    show ?thesis
      by (rule quietI [of t _ "Inr x" l]) (simp_all add: t try_except_def m Inr)
  next
    case (Inl e)
    from assms(2) [of e] obtain r' t' l' where t': "TokenEndpoint \<notin> set t'"
      and k: "\<And>s. truthy (access_token s) \<Longrightarrow>
                h e s = (r', s\<lparr>trace := trace s @ t', stderr := stderr s @ l'\<rparr>)"
      unfolding quiet_def by blast
    show ?thesis
      by (rule quietI [of "t @ t'" _ r' "l @ l'"]) (simp_all add: t t' try_except_def m Inl k)
  qed
qed

lemma quiet_call_api [intro!]: "ep \<noteq> TokenEndpoint \<Longrightarrow> quiet (call_api ep r)"
  unfolding call_api_def by (intro quiet_bindM quiet_send quiet_liftE quiet_get_auth_headers)

lemma quiet_get_users [intro!, simp]: "quiet (get_users w)"
  unfolding get_users_def by (intro quiet_bindM quiet_call_api quiet_liftE) simp

lemma quiet_get_accounts [intro!, simp]: "quiet (get_accounts w uid)"
  unfolding get_accounts_def by (intro quiet_bindM quiet_call_api quiet_liftE) simp

lemma quiet_get_campaigns [intro!, simp]: "quiet (get_campaigns w aid cid)"
  unfolding get_campaigns_def by (intro quiet_bindM quiet_call_api quiet_liftE) simp

lemma quiet_submit [intro!, simp]: "quiet (submit_performance_report w aid sd ed)"
  unfolding submit_performance_report_def
  by (auto intro!: quiet_bindM quiet_send)

lemma quiet_download_report [intro!, simp]: "quiet (download_report w url)"
  unfolding download_report_def
  by (auto intro!: quiet_bindM quiet_send split: json.splits reply.splits)

lemma quiet_after_poll [intro!, simp]: "quiet (after_poll w resp)"
  unfolding after_poll_def
  by (auto intro!: quiet_bindM)

lemma quiet_poll_report_status [intro!, simp]: "quiet (poll_report_status rid r)"
  unfolding poll_report_status_def by (rule quiet_call_api) simp

lemma quiet_poll_loop [intro!, simp]: "quiet (poll_loop w rid mw evs elapsed)"
proof (induction evs arbitrary: elapsed)
  case Nil
  show ?case by (auto intro!: quiet_bindM)
next
  case (Cons ev evs)
  show ?case by (auto intro!: quiet_bindM Cons.IH split: option.splits)
qed

lemma quiet_get_performance_report [intro!, simp]:
  "quiet (get_performance_report w aid sd ed mw)"
  unfolding get_performance_report_def by (auto intro!: quiet_bindM)

subsection \<open>Report submission and download\<close>

text \<open>
  C6, at the input where the code departs from it: the submit call answers 200 with a
  JSON object that has no \<open>ReportRequestId\<close>. The method returns \<open>None\<close> as its normal
  result.
\<close>

theorem submit_without_job_id_returns_None:
  "submit_performance_report
     (w\<lparr>submit_reply := \<lambda>a. Reply 200 (Some (JObj [(''TrackingId'', JStr ''t-1'')]))\<rparr>)
     account_id None None (s\<lparr>access_token := JStr ''bearer''\<rparr>)
   = (Inr JNull, s\<lparr>access_token := JStr ''bearer'', trace := trace s @ [SubmitReport account_id]\<rparr>)"
  by (simp add: submit_performance_report_def get_auth_headers_def bindM_def
        get_access_token_def returnM_def date_parses_def send_def liftE_def
        raise_for_status_def)

lemma decode_report_gzip:
  "gzip_decompress w z = Inr b \<Longrightarrow>
     decode_report w z = (case decode_text w b of Inl e \<Rightarrow> Inl e | Inr t \<Rightarrow> dict_reader w t)"
  by (simp add: decode_report_def)

lemma decode_report_plain:
  "plain_payload w b \<Longrightarrow>
     decode_report w b = (case decode_text w b of Inl e \<Rightarrow> Inl e | Inr t \<Rightarrow> dict_reader w t)"
  by (auto simp: decode_report_def plain_payload_def split: sum.splits)

lemma download_report_reply:
  assumes "download_reply w u = Reply st content"
  shows "download_report w (JStr u) s
           = ((if raise_for_status st then Inl (HTTPError st) else decode_report w content),
              s\<lparr>trace := trace s @ [Download u]\<rparr>)"
  using assms by (simp add: download_report_def bindM_def send_def raiseM_def liftE_def)

lemma decode_report_other_replies:
  "decode_report (w\<lparr>download_reply := f\<rparr>) content = decode_report w content"
proof -
  have "decode_text (w\<lparr>download_reply := f\<rparr>) = decode_text w"
    by (rule ext) (simp add: decode_text_def)
  then show ?thesis
    by (simp add: decode_report_def split: sum.splits)
qed

text \<open>
  C8. Let \<open>b\<close> be the bytes of a CSV text, plain in the sense above, and \<open>z\<close> a payload
  that \<open>gzip.decompress\<close> turns into \<open>b\<close>. Decoding \<open>z\<close> and decoding \<open>b\<close> give the same
  outcome, which is the outcome of the header-row reader on the BOM-aware UTF-8
  decoding of \<open>b\<close>; and \<open>download_report\<close> gives the same outcome and sends the same
  request whether the server holds \<open>z\<close> or \<open>b\<close> behind the download URL. In full: with
  either payload behind the URL \<open>u\<close>, \<open>download_report\<close> sends the one request for \<open>u\<close>
  and then raises \<open>HTTPError\<close> on an error status, raises \<open>UnicodeDecodeError\<close> when \<open>b\<close>
  is not UTF-8, and otherwise returns what \<open>list(csv.DictReader(_))\<close> makes of the
  decoded text: its records, one per data row, in the reader's order.
\<close>

theorem gzip_and_plain_payload_decode_alike:
  assumes "gzip_decompress w z = Inr b" and "plain_payload w b"
  shows "decode_report w z = decode_report w b
         \<and> decode_report w b
             = (case decode_text w b of Inl e \<Rightarrow> Inl e | Inr t \<Rightarrow> dict_reader w t)
         \<and> download_report (w\<lparr>download_reply := \<lambda>u. Reply st z\<rparr>) url s
             = download_report (w\<lparr>download_reply := \<lambda>u. Reply st b\<rparr>) url s
         \<and> download_report (w\<lparr>download_reply := \<lambda>u. Reply st z\<rparr>) (JStr u) s
             = ((if raise_for_status st then Inl (HTTPError st)
                 else case decode_utf8_sig w b of
                        None \<Rightarrow> Inl UnicodeDecodeError
                      | Some text_content \<Rightarrow> dict_reader w text_content),
                s\<lparr>trace := trace s @ [Download u]\<rparr>)
         \<and> download_report (w\<lparr>download_reply := \<lambda>u. Reply st b\<rparr>) (JStr u) s
             = ((if raise_for_status st then Inl (HTTPError st)
                 else case decode_utf8_sig w b of
                        None \<Rightarrow> Inl UnicodeDecodeError
                      | Some text_content \<Rightarrow> dict_reader w text_content),
                s\<lparr>trace := trace s @ [Download u]\<rparr>)"
proof -
  have z: "decode_report w z = (case decode_text w b of Inl e \<Rightarrow> Inl e | Inr t \<Rightarrow> dict_reader w t)"
    using assms(1) by (rule decode_report_gzip)
  have b: "decode_report w b = (case decode_text w b of Inl e \<Rightarrow> Inl e | Inr t \<Rightarrow> dict_reader w t)"
    using assms(2) by (rule decode_report_plain)
  have decoded: "(case decode_text w b of Inl e \<Rightarrow> Inl e | Inr t \<Rightarrow> dict_reader w t)
                = (case decode_utf8_sig w b of
                     None \<Rightarrow> Inl UnicodeDecodeError
                   | Some text_content \<Rightarrow> dict_reader w text_content)"
    by (simp add: decode_text_def split: option.splits)
  have same: "download_report (w\<lparr>download_reply := \<lambda>u. Reply st z\<rparr>) url s
          = download_report (w\<lparr>download_reply := \<lambda>u. Reply st b\<rparr>) url s"
    by (cases url) (simp_all add: download_report_def decode_report_other_replies z b)
  have dz: "download_report (w\<lparr>download_reply := \<lambda>u. Reply st z\<rparr>) (JStr u) s
             = ((if raise_for_status st then Inl (HTTPError st)
                 else case decode_utf8_sig w b of
                        None \<Rightarrow> Inl UnicodeDecodeError
                      | Some text_content \<Rightarrow> dict_reader w text_content),
                s\<lparr>trace := trace s @ [Download u]\<rparr>)"
    by (simp add: download_report_reply decode_report_other_replies z decoded)
  have db: "download_report (w\<lparr>download_reply := \<lambda>u. Reply st b\<rparr>) (JStr u) s
             = ((if raise_for_status st then Inl (HTTPError st)
                 else case decode_utf8_sig w b of
                        None \<Rightarrow> Inl UnicodeDecodeError
                      | Some text_content \<Rightarrow> dict_reader w text_content),
                s\<lparr>trace := trace s @ [Download u]\<rparr>)"
    by (simp add: download_report_reply decode_report_other_replies b decoded)
  from z b same dz db show ?thesis by simp
qed

theorem gzip_and_plain_payload_decode_alike_witness:
  "decode_report
     (offline\<lparr>gzip_decompress := \<lambda>p. if take 2 p = [0x1f, 0x8b] then Inr (drop 2 p)
                                     else if p = [] then Inr [] else Inl BadGzipFile,
              decode_utf8_sig := \<lambda>p. Some (map (\<lambda>c. char_of (unat c)) p),
              dict_reader := \<lambda>t. Inr [JStr t]\<rparr>)
     [0x1f, 0x8b, 0x61, 0x2c, 0x62]
   = decode_report
     (offline\<lparr>gzip_decompress := \<lambda>p. if take 2 p = [0x1f, 0x8b] then Inr (drop 2 p)
                                     else if p = [] then Inr [] else Inl BadGzipFile,
              decode_utf8_sig := \<lambda>p. Some (map (\<lambda>c. char_of (unat c)) p),
              dict_reader := \<lambda>t. Inr [JStr t]\<rparr>)
     [0x61, 0x2c, 0x62]
   \<and> download_report
       (offline\<lparr>gzip_decompress := \<lambda>p. if take 2 p = [0x1f, 0x8b] then Inr (drop 2 p)
                                       else if p = [] then Inr [] else Inl BadGzipFile,
                decode_utf8_sig := \<lambda>p. Some (map (\<lambda>c. char_of (unat c)) p),
                dict_reader := \<lambda>t. if t = ''k,1,2''
                                    then Inr [JObj [(''k'', JStr ''1'')], JObj [(''k'', JStr ''2'')]]
                                    else Inl CsvError,
                download_reply := \<lambda>u. Reply 200 [0x1f, 0x8b, 0x6b, 0x2c, 0x31, 0x2c, 0x32]\<rparr>)
       (JStr ''https://download.example/r1'')
       (BingAdsExtractor_init ''t'' ''c'' ''s'' ''r'' ''d'' [])
     = (Inr [JObj [(''k'', JStr ''1'')], JObj [(''k'', JStr ''2'')]],
        (BingAdsExtractor_init ''t'' ''c'' ''s'' ''r'' ''d'' [])
          \<lparr>trace := [Download ''https://download.example/r1'']\<rparr>)
   \<and> download_report
       (offline\<lparr>gzip_decompress := \<lambda>p. if take 2 p = [0x1f, 0x8b] then Inr (drop 2 p)
                                       else if p = [] then Inr [] else Inl BadGzipFile,
                decode_utf8_sig := \<lambda>p. Some (map (\<lambda>c. char_of (unat c)) p),
                dict_reader := \<lambda>t. if t = ''k,1,2''
                                    then Inr [JObj [(''k'', JStr ''1'')], JObj [(''k'', JStr ''2'')]]
                                    else Inl CsvError,
                download_reply := \<lambda>u. Reply 200 [0x6b, 0x2c, 0x31, 0x2c, 0x32]\<rparr>)
       (JStr ''https://download.example/r1'')
       (BingAdsExtractor_init ''t'' ''c'' ''s'' ''r'' ''d'' [])
     = (Inr [JObj [(''k'', JStr ''1'')], JObj [(''k'', JStr ''2'')]],
        (BingAdsExtractor_init ''t'' ''c'' ''s'' ''r'' ''d'' [])
          \<lparr>trace := [Download ''https://download.example/r1'']\<rparr>)"
proof -
  let ?w = "offline\<lparr>gzip_decompress := \<lambda>p. if take 2 p = [0x1f, 0x8b] then Inr (drop 2 p)
                                     else if p = [] then Inr [] else Inl BadGzipFile,
              decode_utf8_sig := \<lambda>p. Some (map (\<lambda>c. char_of (unat c)) p),
              dict_reader := \<lambda>t. Inr [JStr t]\<rparr>"
  let ?v = "offline\<lparr>gzip_decompress := \<lambda>p. if take 2 p = [0x1f, 0x8b] then Inr (drop 2 p)
                                       else if p = [] then Inr [] else Inl BadGzipFile,
                decode_utf8_sig := \<lambda>p. Some (map (\<lambda>c. char_of (unat c)) p),
                dict_reader := \<lambda>t. if t = ''k,1,2''
                                    then Inr [JObj [(''k'', JStr ''1'')], JObj [(''k'', JStr ''2'')]]
                                    else Inl CsvError\<rparr>"
  let ?s = "BingAdsExtractor_init ''t'' ''c'' ''s'' ''r'' ''d'' []"
  have 1: "gzip_decompress ?w [0x1f, 0x8b, 0x61, 0x2c, 0x62] = Inr [0x61, 0x2c, 0x62]"
    by simp
  have 2: "plain_payload ?w [0x61, 0x2c, 0x62]"
    by (simp add: plain_payload_def)
  have 3: "gzip_decompress ?v [0x1f, 0x8b, 0x6b, 0x2c, 0x31, 0x2c, 0x32]
             = Inr [0x6b, 0x2c, 0x31, 0x2c, 0x32]"
    by simp
  have 4: "plain_payload ?v [0x6b, 0x2c, 0x31, 0x2c, 0x32]"
    by (simp add: plain_payload_def)
  have decoded: "decode_utf8_sig ?v [0x6b, 0x2c, 0x31, 0x2c, 0x32] = Some ''k,1,2''"
    by (simp add: char_of_def bit_Suc_0_iff)
  from gzip_and_plain_payload_decode_alike [OF 1 2]
       gzip_and_plain_payload_decode_alike
         [OF 3 4, where st = 200 and u = "''https://download.example/r1''" and s = ?s]
       decoded
  show ?thesis
    by (simp add: raise_for_status_def BingAdsExtractor_init_def)
qed

subsection \<open>The poll loop\<close>

lemma call_api_cached:
  "truthy (access_token s) \<Longrightarrow>
     call_api ep r s = (json_of_reply r, s\<lparr>trace := trace s @ [ep]\<rparr>)"
  by (simp add: call_api_def get_auth_headers_def bindM_def get_access_token_cached
        returnM_def send_def liftE_def)

lemma after_poll_pending:
  "json_of_reply r = Inr resp \<Longrightarrow> pending r \<Longrightarrow> after_poll w resp = returnM None"
  by (auto simp: after_poll_def pending_def split: sum.splits)

lemma poll_loop_expired:
  "max_wait \<le> elapsed \<Longrightarrow> poll_loop w rid max_wait evs elapsed s = (Inl TimeoutError, s)"
  by (cases evs) (simp_all add: raiseM_def)

lemma poll_loop_pending:
  assumes "truthy (access_token s)"
    and "list_all (\<lambda>ev. pending (answer ev)) evs"
    and "budget_lasts max_wait e evs"
  shows "poll_loop w rid max_wait (evs @ rest) e s
           = poll_loop w rid max_wait rest (elapsed_after e evs)
               (s\<lparr>trace := trace s @ replicate (length evs) (PollReport rid)\<rparr>)"
  using assms
proof (induction evs arbitrary: e s)
  case Nil
  then show ?case by simp
next
  case (Cons ev evs)
  from Cons.prems(2) have p: "pending (answer ev)" and ps: "list_all (\<lambda>ev. pending (answer ev)) evs"
    by simp_all
  from p obtain resp where resp: "json_of_reply (answer ev) = Inr resp"
    by (auto simp: pending_def split: sum.splits)
  from Cons.prems(3) have lt: "e < max_wait"
    and rest: "budget_lasts max_wait (e + took ev + 10 + overslept ev) evs"
    by simp_all
  let ?s1 = "s\<lparr>trace := trace s @ [PollReport rid]\<rparr>"
  have tok: "truthy (access_token ?s1)" using Cons.prems(1) by simp
  have "poll_loop w rid max_wait ((ev # evs) @ rest) e s
          = poll_loop w rid max_wait (evs @ rest) (e + took ev + 10 + overslept ev) ?s1"
    using lt Cons.prems(1) resp p
    by (simp add: bindM_def poll_report_status_def call_api_cached after_poll_pending returnM_def)
  also have "\<dots> = poll_loop w rid max_wait rest (elapsed_after (e + took ev + 10 + overslept ev) evs)
                    (?s1\<lparr>trace := trace ?s1 @ replicate (length evs) (PollReport rid)\<rparr>)"
    using Cons.IH [OF tok ps rest] .
  finally show ?case by (simp add: replicate_append_same)
qed

lemma quiet_keeps_token:
  assumes "quiet m" and "truthy (access_token s)" and "m s = (r, s')"
  shows "access_token s' = access_token s"
proof -
  from assms(1) obtain r0 t l where
    "\<And>s. truthy (access_token s) \<Longrightarrow>
        m s = (r0, s\<lparr>trace := trace s @ t, stderr := stderr s @ l\<rparr>)"
    unfolding quiet_def by blast
  from this [OF assms(2)] assms(3) show ?thesis by auto
qed


text \<open>
  C3, as stated, at a concrete run: the budget is 5 seconds, the first poll is issued at
  once and takes 7 seconds to come back with status \<open>Success\<close>. The first settled
  answer arrives at 7 seconds, after the budget has run out, yet the run does not
  raise \<open>TimeoutError\<close>: it downloads the report and returns its records.
\<close>

theorem slow_poll_beats_budget_counterexample:
  "first_settled_at
     (entry_delay
        (offline\<lparr>submit_reply := \<lambda>a. Reply 200 (Some (JObj [(''ReportRequestId'', JStr ''r1'')])),
                 poll_events := \<lambda>rid.
                   [\<lparr>answer = Reply 200 (Some (JObj [(''ReportRequestStatus'',
                                 JObj [(''Status'', JStr ''Success''),
                                       (''ReportDownloadUrl'', JStr ''u'')])])),
                     took = 7, overslept = 0\<rparr>],
                 download_reply := \<lambda>u. Reply 200 [0x61],
                 decode_utf8_sig := \<lambda>b. Some ''a'',
                 dict_reader := \<lambda>t. Inr [JObj [(''a'', JNull)]]\<rparr>))
     (poll_events
        (offline\<lparr>submit_reply := \<lambda>a. Reply 200 (Some (JObj [(''ReportRequestId'', JStr ''r1'')])),
                 poll_events := \<lambda>rid.
                   [\<lparr>answer = Reply 200 (Some (JObj [(''ReportRequestStatus'',
                                 JObj [(''Status'', JStr ''Success''),
                                       (''ReportDownloadUrl'', JStr ''u'')])])),
                     took = 7, overslept = 0\<rparr>],
                 download_reply := \<lambda>u. Reply 200 [0x61],
                 decode_utf8_sig := \<lambda>b. Some ''a'',
                 dict_reader := \<lambda>t. Inr [JObj [(''a'', JNull)]]\<rparr>) (JStr ''r1''))
     = Some 7
   \<and> (5 :: real) < 7
   \<and> get_performance_report
       (offline\<lparr>submit_reply := \<lambda>a. Reply 200 (Some (JObj [(''ReportRequestId'', JStr ''r1'')])),
                poll_events := \<lambda>rid.
                  [\<lparr>answer = Reply 200 (Some (JObj [(''ReportRequestStatus'',
                                JObj [(''Status'', JStr ''Success''),
                                      (''ReportDownloadUrl'', JStr ''u'')])])),
                    took = 7, overslept = 0\<rparr>],
                download_reply := \<lambda>u. Reply 200 [0x61],
                decode_utf8_sig := \<lambda>b. Some ''a'',
                dict_reader := \<lambda>t. Inr [JObj [(''a'', JNull)]]\<rparr>)
       1 None None 5
       ((BingAdsExtractor_init ''t'' ''c'' ''s'' ''r'' ''d'' [])\<lparr>access_token := JStr ''bearer''\<rparr>)
     = (Inr [JObj [(''a'', JNull)]],
        (BingAdsExtractor_init ''t'' ''c'' ''s'' ''r'' ''d'' [])
          \<lparr>access_token := JStr ''bearer'',
           trace := [SubmitReport 1, PollReport (JStr ''r1''), Download ''u'']\<rparr>)"
  by (simp add: offline_def settled_def report_field_def raise_for_status_def
        get_performance_report_def submit_performance_report_def get_auth_headers_def
        bindM_def get_access_token_def returnM_def date_parses_def send_def liftE_def
        poll_report_status_def call_api_def after_poll_def download_report_def
        decode_report_def decode_text_def BingAdsExtractor_init_def)

lemma budget_lasts_append:
  "budget_lasts max_wait e (evs @ evs')
     \<longleftrightarrow> budget_lasts max_wait e evs \<and> budget_lasts max_wait (elapsed_after e evs) evs'"
  by (induction evs arbitrary: e) auto

lemma after_poll_success:
  assumes "report_field ''Status'' resp = Inr (JStr ''Success'')"
    and "report_field ''ReportDownloadUrl'' resp = Inr url"
  shows "after_poll w resp = bindM (download_report w url) (\<lambda>records. returnM (Some records))"
  using assms by (simp add: after_poll_def)

lemma poll_loop_success:
  assumes "truthy (access_token s)" and "elapsed < max_wait"
    and "json_of_reply (answer ev) = Inr resp"
    and "report_field ''Status'' resp = Inr (JStr ''Success'')"
    and "report_field ''ReportDownloadUrl'' resp = Inr url"
  shows "poll_loop w rid max_wait (ev # rest) elapsed s
           = download_report w url (s\<lparr>trace := trace s @ [PollReport rid]\<rparr>)"
proof -
  obtain r s' where d: "download_report w url (s\<lparr>trace := trace s @ [PollReport rid]\<rparr>) = (r, s')"
    by (cases "download_report w url (s\<lparr>trace := trace s @ [PollReport rid]\<rparr>)")
  show ?thesis
    using assms
    by (cases r)
       (simp_all add: bindM_def poll_report_status_def call_api_cached after_poll_success d
          returnM_def)
qed

text \<open>
  C3, amended. The loop reads the clock before each poll, and only there. If the first
  reading already finds the budget spent, the run raises \<open>TimeoutError\<close> and the session
  is the one the submit call left: no poll was sent. With the token cached, if the
  polls of \<open>evs\<close> are each issued with the budget unspent and answered with a status
  other than \<open>Success\<close> and \<open>Error\<close>, then: when the reading after them finds the budget
  spent, the run raises \<open>TimeoutError\<close> after exactly these polls; and when the next
  poll is still issued with the budget unspent and answered with \<open>Success\<close>, the run
  is the download of the report, however long that poll took.
\<close>

theorem budget_checked_before_each_poll:
  assumes "submit_performance_report w account_id start_date end_date s = (Inr report_id, s1)"
  shows "(max_wait \<le> entry_delay w \<longrightarrow>
            get_performance_report w account_id start_date end_date max_wait s
              = (Inl TimeoutError, s1))
         \<and> (truthy (access_token s)
              \<and> poll_events w report_id = evs @ rest
              \<and> list_all (\<lambda>ev. pending (answer ev)) evs
              \<and> budget_lasts max_wait (entry_delay w) evs
              \<and> max_wait \<le> elapsed_after (entry_delay w) evs \<longrightarrow>
            get_performance_report w account_id start_date end_date max_wait s
              = (Inl TimeoutError,
                 s1\<lparr>trace := trace s1 @ replicate (length evs) (PollReport report_id)\<rparr>))
         \<and> (truthy (access_token s)
              \<and> poll_events w report_id = evs @ ev # rest
              \<and> list_all (\<lambda>ev. pending (answer ev)) evs
              \<and> budget_lasts max_wait (entry_delay w) (evs @ [ev])
              \<and> json_of_reply (answer ev) = Inr status_response
              \<and> report_field ''Status'' status_response = Inr (JStr ''Success'')
              \<and> report_field ''ReportDownloadUrl'' status_response = Inr download_url \<longrightarrow>
            get_performance_report w account_id start_date end_date max_wait s
              = download_report w download_url
                  (s1\<lparr>trace := trace s1 @ replicate (length evs + 1) (PollReport report_id)\<rparr>))"
proof (intro conjI impI)
  assume "max_wait \<le> entry_delay w"
  then show "get_performance_report w account_id start_date end_date max_wait s
               = (Inl TimeoutError, s1)"
    using assms by (simp add: get_performance_report_def bindM_def poll_loop_expired)
next
  assume h: "truthy (access_token s)
              \<and> poll_events w report_id = evs @ rest
              \<and> list_all (\<lambda>ev. pending (answer ev)) evs
              \<and> budget_lasts max_wait (entry_delay w) evs
              \<and> max_wait \<le> elapsed_after (entry_delay w) evs"
  from h have "truthy (access_token s)" by simp
  with quiet_submit have "access_token s1 = access_token s"
    using assms by (rule quiet_keeps_token)
  with h have tok: "truthy (access_token s1)" by simp
  have "get_performance_report w account_id start_date end_date max_wait s
          = poll_loop w report_id max_wait (evs @ rest) (entry_delay w) s1"
    using assms h by (simp add: get_performance_report_def bindM_def)
  also have "\<dots> = poll_loop w report_id max_wait rest (elapsed_after (entry_delay w) evs)
                    (s1\<lparr>trace := trace s1 @ replicate (length evs) (PollReport report_id)\<rparr>)"
    using tok h by (simp add: poll_loop_pending)
  also have "\<dots> = (Inl TimeoutError,
                    s1\<lparr>trace := trace s1 @ replicate (length evs) (PollReport report_id)\<rparr>)"
    using h by (simp add: poll_loop_expired)
  finally show "get_performance_report w account_id start_date end_date max_wait s
                  = (Inl TimeoutError,
                     s1\<lparr>trace := trace s1 @ replicate (length evs) (PollReport report_id)\<rparr>)" .
next
  assume h: "truthy (access_token s)
              \<and> poll_events w report_id = evs @ ev # rest
              \<and> list_all (\<lambda>ev. pending (answer ev)) evs
              \<and> budget_lasts max_wait (entry_delay w) (evs @ [ev])
              \<and> json_of_reply (answer ev) = Inr status_response
              \<and> report_field ''Status'' status_response = Inr (JStr ''Success'')
              \<and> report_field ''ReportDownloadUrl'' status_response = Inr download_url"
  from h have "truthy (access_token s)" by simp
  with quiet_submit have "access_token s1 = access_token s"
    using assms by (rule quiet_keeps_token)
  with h have tok: "truthy (access_token s1)" by simp
  from h have lasts: "budget_lasts max_wait (entry_delay w) evs"
    and unspent: "elapsed_after (entry_delay w) evs < max_wait"
    by (simp_all add: budget_lasts_append)
  let ?s2 = "s1\<lparr>trace := trace s1 @ replicate (length evs) (PollReport report_id)\<rparr>"
  have tok2: "truthy (access_token ?s2)" using tok by simp
  have "get_performance_report w account_id start_date end_date max_wait s
          = poll_loop w report_id max_wait (evs @ ev # rest) (entry_delay w) s1"
    using assms h by (simp add: get_performance_report_def bindM_def)
  also have "\<dots> = poll_loop w report_id max_wait (ev # rest) (elapsed_after (entry_delay w) evs) ?s2"
    using tok h lasts by (simp add: poll_loop_pending)
  also have "\<dots> = download_report w download_url (?s2\<lparr>trace := trace ?s2 @ [PollReport report_id]\<rparr>)"
  proof (rule poll_loop_success)
    show "truthy (access_token ?s2)" by (rule tok2)
    show "elapsed_after (entry_delay w) evs < max_wait" by (rule unspent)
    from h show "json_of_reply (answer ev) = Inr status_response" by simp
    from h show "report_field ''Status'' status_response = Inr (JStr ''Success'')" by simp
    from h show "report_field ''ReportDownloadUrl'' status_response = Inr download_url" by simp
  qed
  finally show "get_performance_report w account_id start_date end_date max_wait s
              = download_report w download_url
                  (s1\<lparr>trace := trace s1 @ replicate (length evs + 1) (PollReport report_id)\<rparr>)"
    by (simp add: replicate_append_same)
qed

theorem budget_checked_before_each_poll_witness:
  "get_performance_report
     (offline\<lparr>submit_reply := \<lambda>a. Reply 200 (Some (JObj [(''ReportRequestId'', JStr ''r1'')])),
              poll_events := \<lambda>rid.
                [\<lparr>answer = Reply 200 (Some (JObj [(''ReportRequestStatus'',
                              JObj [(''Status'', JStr ''Pending'')])])),
                  took = 1, overslept = 0\<rparr>,
                 \<lparr>answer = Reply 200 (Some (JObj [])),
                  took = 1, overslept = 0\<rparr>,
                 \<lparr>answer = Reply 200 (Some (JObj [(''ReportRequestStatus'',
                              JObj [(''Status'', JStr ''Success''),
                                    (''ReportDownloadUrl'', JStr ''u'')])])),
                  took = 100, overslept = 0\<rparr>],
              download_reply := \<lambda>u. Reply 200 [0x61],
              decode_utf8_sig := \<lambda>b. Some ''a'',
              dict_reader := \<lambda>t. Inr [JObj [(''a'', JNull)]]\<rparr>)
     1 None None 0
     ((BingAdsExtractor_init ''t'' ''c'' ''s'' ''r'' ''d'' [])\<lparr>access_token := JStr ''bearer''\<rparr>)
   = (Inl TimeoutError,
      (BingAdsExtractor_init ''t'' ''c'' ''s'' ''r'' ''d'' [])
        \<lparr>access_token := JStr ''bearer'', trace := [SubmitReport 1]\<rparr>)
   \<and> get_performance_report
     (offline\<lparr>submit_reply := \<lambda>a. Reply 200 (Some (JObj [(''ReportRequestId'', JStr ''r1'')])),
              poll_events := \<lambda>rid.
                [\<lparr>answer = Reply 200 (Some (JObj [(''ReportRequestStatus'',
                              JObj [(''Status'', JStr ''Pending'')])])),
                  took = 1, overslept = 0\<rparr>,
                 \<lparr>answer = Reply 200 (Some (JObj [])),
                  took = 1, overslept = 0\<rparr>,
                 \<lparr>answer = Reply 200 (Some (JObj [(''ReportRequestStatus'',
                              JObj [(''Status'', JStr ''Success''),
                                    (''ReportDownloadUrl'', JStr ''u'')])])),
                  took = 100, overslept = 0\<rparr>],
              download_reply := \<lambda>u. Reply 200 [0x61],
              decode_utf8_sig := \<lambda>b. Some ''a'',
              dict_reader := \<lambda>t. Inr [JObj [(''a'', JNull)]]\<rparr>)
     1 None None 15
     ((BingAdsExtractor_init ''t'' ''c'' ''s'' ''r'' ''d'' [])\<lparr>access_token := JStr ''bearer''\<rparr>)
   = (Inl TimeoutError,
      (BingAdsExtractor_init ''t'' ''c'' ''s'' ''r'' ''d'' [])
        \<lparr>access_token := JStr ''bearer'',
         trace := [SubmitReport 1, PollReport (JStr ''r1''), PollReport (JStr ''r1'')]\<rparr>)
   \<and> get_performance_report
     (offline\<lparr>submit_reply := \<lambda>a. Reply 200 (Some (JObj [(''ReportRequestId'', JStr ''r1'')])),
              poll_events := \<lambda>rid.
                [\<lparr>answer = Reply 200 (Some (JObj [(''ReportRequestStatus'',
                              JObj [(''Status'', JStr ''Pending'')])])),
                  took = 1, overslept = 0\<rparr>,
                 \<lparr>answer = Reply 200 (Some (JObj [])),
                  took = 1, overslept = 0\<rparr>,
                 \<lparr>answer = Reply 200 (Some (JObj [(''ReportRequestStatus'',
                              JObj [(''Status'', JStr ''Success''),
                                    (''ReportDownloadUrl'', JStr ''u'')])])),
                  took = 100, overslept = 0\<rparr>],
              download_reply := \<lambda>u. Reply 200 [0x61],
              decode_utf8_sig := \<lambda>b. Some ''a'',
              dict_reader := \<lambda>t. Inr [JObj [(''a'', JNull)]]\<rparr>)
     1 None None 25
     ((BingAdsExtractor_init ''t'' ''c'' ''s'' ''r'' ''d'' [])\<lparr>access_token := JStr ''bearer''\<rparr>)
   = (Inr [JObj [(''a'', JNull)]],
      (BingAdsExtractor_init ''t'' ''c'' ''s'' ''r'' ''d'' [])
        \<lparr>access_token := JStr ''bearer'',
         trace := [SubmitReport 1, PollReport (JStr ''r1''), PollReport (JStr ''r1''),
                   PollReport (JStr ''r1''), Download ''u'']\<rparr>)"
proof -
  let ?p = "\<lparr>answer = Reply 200 (Some (JObj [(''ReportRequestStatus'',
                              JObj [(''Status'', JStr ''Pending'')])])),
              took = 1, overslept = 0\<rparr>"
  let ?q = "\<lparr>answer = Reply 200 (Some (JObj [])), took = 1, overslept = 0\<rparr>"
  let ?ok = "\<lparr>answer = Reply 200 (Some (JObj [(''ReportRequestStatus'',
                              JObj [(''Status'', JStr ''Success''),
                                    (''ReportDownloadUrl'', JStr ''u'')])])),
              took = 100, overslept = 0\<rparr>"
  let ?w = "offline\<lparr>submit_reply := \<lambda>a. Reply 200 (Some (JObj [(''ReportRequestId'', JStr ''r1'')])),
              poll_events := \<lambda>rid. [?p, ?q, ?ok],
              download_reply := \<lambda>u. Reply 200 [0x61],
              decode_utf8_sig := \<lambda>b. Some ''a'',
              dict_reader := \<lambda>t. Inr [JObj [(''a'', JNull)]]\<rparr>"
  let ?s = "(BingAdsExtractor_init ''t'' ''c'' ''s'' ''r'' ''d'' [])\<lparr>access_token := JStr ''bearer''\<rparr>"
  let ?after = "(BingAdsExtractor_init ''t'' ''c'' ''s'' ''r'' ''d'' [])
               \<lparr>access_token := JStr ''bearer'', trace := [SubmitReport 1]\<rparr>"
  let ?resp = "JObj [(''ReportRequestStatus'',
                     JObj [(''Status'', JStr ''Success''), (''ReportDownloadUrl'', JStr ''u'')])]"
  have submit: "submit_performance_report ?w 1 None None ?s = (Inr (JStr ''r1''), ?after)"
    by (simp add: offline_def submit_performance_report_def get_auth_headers_def bindM_def
          get_access_token_def returnM_def date_parses_def send_def liftE_def
          raise_for_status_def BingAdsExtractor_init_def)
  have zero: "(0 :: real) \<le> entry_delay ?w"
    by (simp add: offline_def)
  have polls: "truthy (access_token ?s)
               \<and> poll_events ?w (JStr ''r1'') = [?p, ?q] @ [?ok]
               \<and> list_all (\<lambda>ev. pending (answer ev)) [?p, ?q]
               \<and> budget_lasts 15 (entry_delay ?w) [?p, ?q]
               \<and> (15 :: real) \<le> elapsed_after (entry_delay ?w) [?p, ?q]"
    by (simp add: offline_def pending_def report_field_def raise_for_status_def
          BingAdsExtractor_init_def)
  have honoured: "truthy (access_token ?s)
               \<and> poll_events ?w (JStr ''r1'') = [?p, ?q] @ ?ok # []
               \<and> list_all (\<lambda>ev. pending (answer ev)) [?p, ?q]
               \<and> budget_lasts 25 (entry_delay ?w) ([?p, ?q] @ [?ok])
               \<and> json_of_reply (answer ?ok) = Inr ?resp
               \<and> report_field ''Status'' ?resp = Inr (JStr ''Success'')
               \<and> report_field ''ReportDownloadUrl'' ?resp = Inr (JStr ''u'')"
    by (simp add: offline_def pending_def report_field_def raise_for_status_def
          BingAdsExtractor_init_def)
  have download: "download_report ?w (JStr ''u'')
                    (?after\<lparr>trace := trace ?after @ replicate (length [?p, ?q] + 1)
                                                      (PollReport (JStr ''r1''))\<rparr>)
                  = (Inr [JObj [(''a'', JNull)]],
                     (BingAdsExtractor_init ''t'' ''c'' ''s'' ''r'' ''d'' [])
                       \<lparr>access_token := JStr ''bearer'',
                        trace := [SubmitReport 1, PollReport (JStr ''r1''), PollReport (JStr ''r1''),
                                  PollReport (JStr ''r1''), Download ''u'']\<rparr>)"
    by (simp add: offline_def download_report_def bindM_def send_def liftE_def
          decode_report_def decode_text_def raise_for_status_def BingAdsExtractor_init_def
          numeral_3_eq_3)
  from zero polls honoured download show ?thesis
    using budget_checked_before_each_poll [OF submit, where max_wait = 0 and evs = "[?p, ?q]"
            and rest = "[?ok]"]
          budget_checked_before_each_poll [OF submit, where max_wait = 15 and evs = "[?p, ?q]"
            and rest = "[?ok]"]
          budget_checked_before_each_poll [OF submit, where max_wait = 25 and evs = "[?p, ?q]"
            and ev = ?ok and rest = "[]" and status_response = ?resp
            and download_url = "JStr ''u''"]
    by (simp add: BingAdsExtractor_init_def)
qed


subsection \<open>The orchestrators\<close>

lemma quiet_fetch_campaigns_into [intro!, simp]:
  "quiet (fetch_campaigns_into w account_id customer_id res)"
  unfolding fetch_campaigns_into_def
  by (intro quiet_try_except quiet_bindM quiet_liftE quiet_get_campaigns quiet_returnM quiet_eprint)

lemma quiet_fetch_report_into [intro!, simp]:
  "quiet (fetch_report_into w sd ed account_id account_name res)"
  unfolding fetch_report_into_def
  by (intro quiet_try_except quiet_bindM quiet_liftE quiet_get_performance_report
        quiet_returnM quiet_eprint)

lemma quiet_account_body [intro!, simp]: "quiet (account_body w inc sd ed account res)"
  unfolding account_body_def
  by (auto intro!: quiet_bindM)

lemma quiet_accounts_loop [intro!, simp]: "quiet (accounts_loop w inc sd ed accts res)"
  by (induction accts arbitrary: res) (auto intro!: quiet_bindM)

lemma quiet_user_body [intro!, simp]: "quiet (user_body w inc sd ed user res)"
  unfolding user_body_def
  by (auto intro!: quiet_bindM)

lemma quiet_users_loop [intro!, simp]: "quiet (users_loop w inc sd ed us res)"
  by (induction us arbitrary: res) (auto intro!: quiet_bindM)

lemma quiet_extract_all [intro!, simp]: "quiet (extract_all w inc sd ed)"
  unfolding extract_all_def
  by (auto intro!: quiet_bindM)

text \<open>The first thing \<open>extract_all\<close> does is to build the headers of the user query.\<close>

lemma extract_all_starts_with_headers:
  "\<exists>k. extract_all w inc sd ed = bindM get_auth_headers k"
  unfolding extract_all_def get_users_def call_api_def
  by (auto simp: bindM_assoc)

lemma get_access_token_missing_field:
  assumes "\<not> truthy (access_token s)"
    and "token_script s = Reply 200 (Some (JObj kvs)) # rs"
    and "map_of kvs ''access_token'' = None"
  shows "fst (get_access_token s) = Inl (KeyError ''access_token'')"
  using assms by (simp add: get_access_token_def raise_for_status_def)

lemma get_access_token_first:
  assumes "acquires s rs tok"
  shows "get_access_token s
           = (Inr tok, s\<lparr>access_token := tok, token_script := rs,
                         trace := trace s @ [TokenEndpoint]\<rparr>)"
  using assms
  by (auto simp: acquires_def get_access_token_def split: list.splits sum.splits)

lemma run_after_first_acquisition:
  assumes "acquires s rs tok" and "quiet (bindM get_auth_headers k)"
  shows "\<exists>out t l. TokenEndpoint \<notin> set t
           \<and> bindM get_auth_headers k s
               = (out, s\<lparr>access_token := tok, token_script := rs,
                           trace := trace s @ TokenEndpoint # t, stderr := stderr s @ l\<rparr>)"
proof -
  let ?s1 = "s\<lparr>access_token := tok, token_script := rs, trace := trace s @ [TokenEndpoint]\<rparr>"
  from assms(1) have tok: "truthy (access_token ?s1)"
    by (simp add: acquires_def)
  have first: "get_auth_headers s = (Inr (), ?s1)"
    using get_access_token_first [OF assms(1)]
    by (simp add: get_auth_headers_def bindM_def returnM_def)
  have again: "get_auth_headers ?s1 = (Inr (), ?s1)"
    using tok by (simp add: get_auth_headers_def bindM_def returnM_def get_access_token_cached)
  have same: "bindM get_auth_headers k s = bindM get_auth_headers k ?s1"
    by (simp add: bindM_def first again)
  from assms(2) obtain out t l where t: "TokenEndpoint \<notin> set t"
    and run: "\<And>s. truthy (access_token s) \<Longrightarrow>
                bindM get_auth_headers k s
                  = (out, s\<lparr>trace := trace s @ t, stderr := stderr s @ l\<rparr>)"
    unfolding quiet_def by blast
  from run [OF tok] same t show ?thesis by auto
qed

lemma extract_all_after_first_acquisition:
  assumes "acquires s rs tok"
  shows "\<exists>out t l. TokenEndpoint \<notin> set t
           \<and> extract_all w inc sd ed s
               = (out, s\<lparr>access_token := tok, token_script := rs,
                           trace := trace s @ TokenEndpoint # t, stderr := stderr s @ l\<rparr>)"
proof -
  obtain k where k: "extract_all w inc sd ed = bindM get_auth_headers k"
    using extract_all_starts_with_headers by blast
  have "quiet (bindM get_auth_headers k)"
    using quiet_extract_all [of w inc sd ed] by (simp add: k)
  from run_after_first_acquisition [OF assms this] show ?thesis
    by (simp add: k)
qed

lemma profile_body_calls:
  "profile_body aw p = Inr (pid, entry, reports, cs, ls) \<Longrightarrow>
     TokenCall \<notin> set cs \<and> ProfilesCall \<notin> set cs"
  by (auto simp: profile_body_def Let_def split: sum.splits prod.splits)

lemma profiles_loop_calls:
  "\<exists>out cs ls. TokenCall \<notin> set cs
     \<and> profiles_loop aw ps data calls lines = (out, calls @ cs, lines @ ls)"
proof (induction ps arbitrary: data calls lines)
  case Nil
  show ?case by simp
next
  case (Cons p ps)
  show ?case
  proof (cases "profile_body aw p")
    case (Inl e)
    then show ?thesis by simp
  next
    case (Inr body)
    obtain pid entry reports cs ls where body: "body = (pid, entry, reports, cs, ls)"
      by (cases body)
    from Inr body have no: "TokenCall \<notin> set cs"
      using profile_body_calls by blast
    from Cons.IH [of "data\<lparr>campaigns_of_profile := AList.update pid entry (campaigns_of_profile data),
                  performance_of_profile :=
                    AList.update pid reports (performance_of_profile data)\<rparr>"
                     "calls @ cs" "lines @ ls"]
    obtain out cs' ls' where "TokenCall \<notin> set cs'"
      and "profiles_loop aw ps
             (data\<lparr>campaigns_of_profile := AList.update pid entry (campaigns_of_profile data),
                  performance_of_profile :=
                    AList.update pid reports (performance_of_profile data)\<rparr>)
             (calls @ cs) (lines @ ls) = (out, (calls @ cs) @ cs', (lines @ ls) @ ls')"
      by blast
    with Inr body no show ?thesis
      by (intro exI [of _ out] exI [of _ "cs @ cs'"] exI [of _ "ls @ ls'"]) simp
  qed
qed

lemma fetch_all_data_one_token_call:
  "\<exists>out self' calls lines. TokenCall \<notin> set calls
     \<and> fetch_all_data self aw = (out, self', TokenCall # calls, lines)"
proof -
  obtain r0 self' l0 where refresh: "refresh_access_token self (token_reply aw) = (r0, self', l0)"
    by (cases "refresh_access_token self (token_reply aw)")
  obtain ps l1 where prof: "get_profiles (profiles_reply aw) = (ps, l1)"
    by (cases "get_profiles (profiles_reply aw)")
  show ?thesis
  proof (cases r0)
    case (Inl e)
    with refresh show ?thesis by (simp add: fetch_all_data_def)
  next
    case tok: (Inr tok)
    show ?thesis
    proof (cases "py_iter ps")
      case (Inl e)
      with refresh tok prof show ?thesis by (simp add: fetch_all_data_def)
    next
      case (Inr profile_list)
      from profiles_loop_calls
        [of aw profile_list "\<lparr> profiles = ps, campaigns_of_profile = [],
                              performance_of_profile = [] \<rparr>"
            "[TokenCall, ProfilesCall]" "l0 @ l1"]
      obtain out cs ls where "TokenCall \<notin> set cs"
        and "profiles_loop aw profile_list
               \<lparr> profiles = ps, campaigns_of_profile = [], performance_of_profile = [] \<rparr>
               [TokenCall, ProfilesCall] (l0 @ l1)
             = (out, [TokenCall, ProfilesCall] @ cs, (l0 @ l1) @ ls)"
        by blast
      with refresh tok prof Inr show ?thesis by (simp add: fetch_all_data_def)
    qed
  qed
qed

lemma get_access_token_requests:
  assumes "\<not> truthy (access_token s)"
  shows "trace (snd (get_access_token s)) = trace s @ [TokenEndpoint]"
  using assms by (simp add: get_access_token_def split: list.splits sum.splits)

lemma get_access_token_stores:
  assumes "\<not> truthy (access_token s)" and "token_script s = r # rs"
    and "json_of_reply r = Inr token_data"
    and "py_getitem token_data ''access_token'' = Inr tok"
  shows "get_access_token s
           = (Inr tok, s\<lparr>access_token := tok, token_script := rs,
                         trace := trace s @ [TokenEndpoint]\<rparr>)"
  using assms by (simp add: get_access_token_def)

lemma refresh_access_token_replaces:
  assumes "json_of_reply r = Inr data" and "py_get data ''access_token'' JNull = Inr tok"
  shows "refresh_access_token self r = (Inr tok, self\<lparr>access_token := tok\<rparr>, [])"
  using assms by (simp add: refresh_access_token_def)

text \<open>
  C7, as stated, at three concrete inputs. The Amazon \<open>refresh_access_token\<close>, called on
  an object that already holds the bearer \<open>old\<close>, does not return it: it returns and
  stores the \<open>new\<close> of the reply to the request it sends. The Bing \<open>get_access_token\<close>,
  when the token endpoint answers with an empty bearer, returns it as its normal result
  and the next call sends a second request. And one run of \<open>extract_all\<close> against such a
  token endpoint sends a token request before the user query, before the account
  search and before the campaign query.
\<close>

theorem token_requested_again_counterexample:
  "refresh_access_token
     \<lparr> client_id = ''c'', client_secret = ''s'', refresh_token = ''r'',
       access_token = JStr ''old'', region = ''NA'',
       base_url = ''https://advertising-api.amazon.com'' \<rparr>
     (Reply 200 (Some (JObj [(''access_token'', JStr ''new'')])))
   = (Inr (JStr ''new''),
      \<lparr> client_id = ''c'', client_secret = ''s'', refresh_token = ''r'',
        access_token = JStr ''new'', region = ''NA'',
        base_url = ''https://advertising-api.amazon.com'' \<rparr>,
      [])
   \<and> get_access_token
       (BingAdsExtractor_init ''t'' ''c'' ''s'' ''r'' ''d''
          [Reply 200 (Some (JObj [(''access_token'', JStr '''')])),
           Reply 200 (Some (JObj [(''access_token'', JStr '''')]))])
     = (Inr (JStr ''''),
        (BingAdsExtractor_init ''t'' ''c'' ''s'' ''r'' ''d''
           [Reply 200 (Some (JObj [(''access_token'', JStr '''')]))])
          \<lparr>access_token := JStr '''', trace := [TokenEndpoint]\<rparr>)
   \<and> get_access_token
       ((BingAdsExtractor_init ''t'' ''c'' ''s'' ''r'' ''d''
           [Reply 200 (Some (JObj [(''access_token'', JStr '''')]))])
          \<lparr>access_token := JStr '''', trace := [TokenEndpoint]\<rparr>)
     = (Inr (JStr ''''),
        (BingAdsExtractor_init ''t'' ''c'' ''s'' ''r'' ''d'' [])
          \<lparr>access_token := JStr '''', trace := [TokenEndpoint, TokenEndpoint]\<rparr>)
   \<and> extract_all
       (offline\<lparr>users_reply :=
                  Reply 200 (Some (JObj [(''User'', JArr [JObj [(''Id'', JInt 1)]])])),
                accounts_reply := \<lambda>uid.
                  Reply 200 (Some (JObj [(''Accounts'',
                    JArr [JObj [(''Id'', JInt 10), (''ParentCustomerId'', JInt 5)]])])),
                campaigns_reply := \<lambda>a c.
                  Reply 200 (Some (JObj [(''Campaigns'', JArr [JObj [(''Name'', JStr ''c1'')]])]))\<rparr>)
       False None None
       (BingAdsExtractor_init ''t'' ''c'' ''s'' ''r'' ''d''
          [Reply 200 (Some (JObj [(''access_token'', JStr '''')])),
           Reply 200 (Some (JObj [(''access_token'', JStr '''')])),
           Reply 200 (Some (JObj [(''access_token'', JStr '''')]))])
     = (Inr \<lparr> users = [JObj [(''Id'', JInt 1)]],
               accounts = [JObj [(''Id'', JInt 10), (''ParentCustomerId'', JInt 5)]],
               campaigns = [JObj [(''Name'', JStr ''c1''), (''AccountId'', JInt 10),
                                  (''CustomerId'', JInt 5)]],
               performance_reports = [] \<rparr>,
        (BingAdsExtractor_init ''t'' ''c'' ''s'' ''r'' ''d'' [])
          \<lparr>access_token := JStr '''',
           trace := [TokenEndpoint, UserQuery, TokenEndpoint, AccountsSearch 1,
                     TokenEndpoint, CampaignsQuery 10 5]\<rparr>)"
  by (simp add: refresh_access_token_def offline_def extract_all_def get_users_def
        get_accounts_def get_campaigns_def call_api_def get_auth_headers_def
        get_access_token_def bindM_def returnM_def liftE_def send_def users_of_def
        user_body_def account_body_def fetch_campaigns_into_def try_except_def stamp_def
        raise_for_status_def BingAdsExtractor_init_def)

text \<open>
  C7, amended. Bing extractor: with a non-empty bearer cached, \<open>get_access_token\<close>
  returns it and leaves the session as it was, so no request is sent; when a session
  acquires a non-empty bearer, the first call stores it with one request, and a whole
  run of \<open>extract_all\<close> from that session sends that one request to the token endpoint
  and no other, however many data calls follow. A call on a session that holds no
  non-empty bearer always sends one request to the token endpoint, and what a
  successful reply carries under \<open>access_token\<close> is returned and stored, empty or not:
  an empty bearer is requested again by the next call. Amazon fetcher:
  \<open>refresh_access_token\<close> has no cache: whatever bearer the object holds, the call
  returns and stores what the reply to its request carries; a run of \<open>fetch_all_data\<close>
  sends exactly one request to the token endpoint, its first.
\<close>

theorem non_empty_bearer_requested_once_per_run:
  "(truthy (access_token s) \<longrightarrow> get_access_token s = (Inr (access_token s), s))
   \<and> (acquires s rs tok \<longrightarrow>
        get_access_token s
          = (Inr tok, s\<lparr>access_token := tok, token_script := rs,
                        trace := trace s @ [TokenEndpoint]\<rparr>)
        \<and> (\<exists>out t l. TokenEndpoint \<notin> set t
              \<and> extract_all w inc start_date end_date s
                  = (out, s\<lparr>access_token := tok, token_script := rs,
                              trace := trace s @ TokenEndpoint # t,
                              stderr := stderr s @ l\<rparr>)))
   \<and> (\<not> truthy (access_token s) \<longrightarrow>
        trace (snd (get_access_token s)) = trace s @ [TokenEndpoint])
   \<and> (\<not> truthy (access_token s) \<and> token_script s = r # rs
        \<and> json_of_reply r = Inr token_data
        \<and> py_getitem token_data ''access_token'' = Inr tok \<longrightarrow>
        get_access_token s
          = (Inr tok, s\<lparr>access_token := tok, token_script := rs,
                        trace := trace s @ [TokenEndpoint]\<rparr>))
   \<and> (json_of_reply r = Inr data \<and> py_get data ''access_token'' JNull = Inr tok \<longrightarrow>
        refresh_access_token self r = (Inr tok, self\<lparr>access_token := tok\<rparr>, []))
   \<and> (\<exists>out self' calls lines. TokenCall \<notin> set calls
        \<and> fetch_all_data self aw = (out, self', TokenCall # calls, lines))"
proof (intro conjI impI)
  assume "truthy (access_token s)"
  then show "get_access_token s = (Inr (access_token s), s)"
    by (rule get_access_token_cached)
next
  assume "acquires s rs tok"
  then show "get_access_token s
               = (Inr tok, s\<lparr>access_token := tok, token_script := rs,
                             trace := trace s @ [TokenEndpoint]\<rparr>)"
    by (rule get_access_token_first)
next
  assume "acquires s rs tok"
  then show "\<exists>out t l. TokenEndpoint \<notin> set t
               \<and> extract_all w inc start_date end_date s
                   = (out, s\<lparr>access_token := tok, token_script := rs,
                               trace := trace s @ TokenEndpoint # t,
                               stderr := stderr s @ l\<rparr>)"
    by (rule extract_all_after_first_acquisition)
next
  assume "\<not> truthy (access_token s)"
  then show "trace (snd (get_access_token s)) = trace s @ [TokenEndpoint]"
    by (rule get_access_token_requests)
next
  assume "\<not> truthy (access_token s) \<and> token_script s = r # rs
        \<and> json_of_reply r = Inr token_data
        \<and> py_getitem token_data ''access_token'' = Inr tok"
  then show "get_access_token s
          = (Inr tok, s\<lparr>access_token := tok, token_script := rs,
                        trace := trace s @ [TokenEndpoint]\<rparr>)"
    by (simp add: get_access_token_stores)
next
  assume "json_of_reply r = Inr data \<and> py_get data ''access_token'' JNull = Inr tok"
  then show "refresh_access_token self r = (Inr tok, self\<lparr>access_token := tok\<rparr>, [])"
    by (simp add: refresh_access_token_replaces)
next
  show "\<exists>out self' calls lines. TokenCall \<notin> set calls
          \<and> fetch_all_data self aw = (out, self', TokenCall # calls, lines)"
    by (rule fetch_all_data_one_token_call)
qed


theorem non_empty_bearer_requested_once_per_run_witness:
  "get_access_token
     ((BingAdsExtractor_init ''t'' ''c'' ''s'' ''r'' ''d''
         [Reply 200 (Some (JObj [(''access_token'', JStr ''second'')]))])
        \<lparr>access_token := JStr ''bearer'', trace := [TokenEndpoint]\<rparr>)
   = (Inr (JStr ''bearer''),
      (BingAdsExtractor_init ''t'' ''c'' ''s'' ''r'' ''d''
         [Reply 200 (Some (JObj [(''access_token'', JStr ''second'')]))])
        \<lparr>access_token := JStr ''bearer'', trace := [TokenEndpoint]\<rparr>)
   \<and> get_access_token
       (BingAdsExtractor_init ''t'' ''c'' ''s'' ''r'' ''d''
          [Reply 200 (Some (JObj [(''access_token'', JStr ''bearer'')])),
           Reply 200 (Some (JObj [(''access_token'', JStr ''second'')]))])
     = (Inr (JStr ''bearer''),
        (BingAdsExtractor_init ''t'' ''c'' ''s'' ''r'' ''d''
           [Reply 200 (Some (JObj [(''access_token'', JStr ''second'')]))])
          \<lparr>access_token := JStr ''bearer'', trace := [TokenEndpoint]\<rparr>)
   \<and> (\<exists>out t l. TokenEndpoint \<notin> set t
        \<and> extract_all
            (offline\<lparr>users_reply :=
                       Reply 200 (Some (JObj [(''User'', JArr [JObj [(''Id'', JInt 1)]])])),
                     accounts_reply := \<lambda>uid.
                       Reply 200 (Some (JObj [(''Accounts'',
                         JArr [JObj [(''Id'', JInt 10), (''ParentCustomerId'', JInt 5)]])])),
                     campaigns_reply := \<lambda>a c.
                       Reply 200 (Some (JObj [(''Campaigns'',
                         JArr [JObj [(''Name'', JStr ''c1'')]])]))\<rparr>)
            False None None
            (BingAdsExtractor_init ''t'' ''c'' ''s'' ''r'' ''d''
               [Reply 200 (Some (JObj [(''access_token'', JStr ''bearer'')])),
                Reply 200 (Some (JObj [(''access_token'', JStr ''second'')]))])
          = (out,
             (BingAdsExtractor_init ''t'' ''c'' ''s'' ''r'' ''d''
                [Reply 200 (Some (JObj [(''access_token'', JStr ''second'')]))])
               \<lparr>access_token := JStr ''bearer'', trace := TokenEndpoint # t, stderr := l\<rparr>))
   \<and> extract_all
       (offline\<lparr>users_reply :=
                  Reply 200 (Some (JObj [(''User'', JArr [JObj [(''Id'', JInt 1)]])])),
                accounts_reply := \<lambda>uid.
                  Reply 200 (Some (JObj [(''Accounts'',
                    JArr [JObj [(''Id'', JInt 10), (''ParentCustomerId'', JInt 5)]])])),
                campaigns_reply := \<lambda>a c.
                  Reply 200 (Some (JObj [(''Campaigns'',
                    JArr [JObj [(''Name'', JStr ''c1'')]])]))\<rparr>)
       False None None
       (BingAdsExtractor_init ''t'' ''c'' ''s'' ''r'' ''d''
          [Reply 200 (Some (JObj [(''access_token'', JStr ''bearer'')])),
           Reply 200 (Some (JObj [(''access_token'', JStr ''second'')]))])
     = (Inr \<lparr> users = [JObj [(''Id'', JInt 1)]],
               accounts = [JObj [(''Id'', JInt 10), (''ParentCustomerId'', JInt 5)]],
               campaigns = [JObj [(''Name'', JStr ''c1''), (''AccountId'', JInt 10),
                                  (''CustomerId'', JInt 5)]],
               performance_reports = [] \<rparr>,
        (BingAdsExtractor_init ''t'' ''c'' ''s'' ''r'' ''d''
           [Reply 200 (Some (JObj [(''access_token'', JStr ''second'')]))])
          \<lparr>access_token := JStr ''bearer'',
           trace := [TokenEndpoint, UserQuery, AccountsSearch 1, CampaignsQuery 10 5]\<rparr>)
   \<and> trace (snd (get_access_token
                   ((BingAdsExtractor_init ''t'' ''c'' ''s'' ''r'' ''d'' [Reply 401 None])
                      \<lparr>access_token := JStr [], trace := [TokenEndpoint]\<rparr>)))
     = [TokenEndpoint, TokenEndpoint]
   \<and> get_access_token
       (BingAdsExtractor_init ''t'' ''c'' ''s'' ''r'' ''d''
          [Reply 200 (Some (JObj [(''access_token'', JStr [])]))])
     = (Inr (JStr []),
        (BingAdsExtractor_init ''t'' ''c'' ''s'' ''r'' ''d'' [])
          \<lparr>access_token := JStr [], trace := [TokenEndpoint]\<rparr>)
   \<and> refresh_access_token
       \<lparr> client_id = ''c'', client_secret = ''s'', refresh_token = ''r'',
         access_token = JStr ''old'', region = ''NA'',
         base_url = ''https://advertising-api.amazon.com'' \<rparr>
       (Reply 200 (Some (JObj [(''access_token'', JStr ''new'')])))
     = (Inr (JStr ''new''),
        \<lparr> client_id = ''c'', client_secret = ''s'', refresh_token = ''r'',
          access_token = JStr ''new'', region = ''NA'',
          base_url = ''https://advertising-api.amazon.com'' \<rparr>,
        [])
   \<and> (\<exists>out self' calls lines. TokenCall \<notin> set calls
        \<and> fetch_all_data
            \<lparr> client_id = ''c'', client_secret = ''s'', refresh_token = ''r'',
              access_token = JNull, region = ''NA'',
              base_url = ''https://advertising-api.amazon.com'' \<rparr>
            \<lparr> token_reply = Reply 200 (Some (JObj [(''access_token'', JStr ''bearer'')])),
              profiles_reply = Reply 200 (Some (JArr [JObj [(''profileId'', JInt 1)]])),
              display_script = (\<lambda>q. [Reply 200 (Some (JArr [JStr ''d1'']))]),
              brands_script = (\<lambda>q. [Reply 200 (Some (JObj [(''campaigns'', JArr [JStr q])]))]),
              products_script = (\<lambda>q. [Reply 200 (Some (JObj []))]),
              attribution_script = (\<lambda>q. [Reply 400 None]),
              py_str = (\<lambda>v. ''1'') \<rparr>
          = (out, self', TokenCall # calls, lines))
   \<and> fst (snd (snd (fetch_all_data
            \<lparr> client_id = ''c'', client_secret = ''s'', refresh_token = ''r'',
              access_token = JNull, region = ''NA'',
              base_url = ''https://advertising-api.amazon.com'' \<rparr>
            \<lparr> token_reply = Reply 200 (Some (JObj [(''access_token'', JStr ''bearer'')])),
              profiles_reply = Reply 200 (Some (JArr [JObj [(''profileId'', JInt 1)]])),
              display_script = (\<lambda>q. [Reply 200 (Some (JArr [JStr ''d1'']))]),
              brands_script = (\<lambda>q. [Reply 200 (Some (JObj [(''campaigns'', JArr [JStr q])]))]),
              products_script = (\<lambda>q. [Reply 200 (Some (JObj []))]),
              attribution_script = (\<lambda>q. [Reply 400 None]),
              py_str = (\<lambda>v. ''1'') \<rparr>)))
     = [TokenCall, ProfilesCall, DisplayCall ''1'', BrandsCall ''1'', ProductsCall ''1'',
        AttributionCall ''1'']"
proof -
  note T = non_empty_bearer_requested_once_per_run
  let ?first = "Reply 200 (Some (JObj [(''access_token'', JStr ''bearer'')]))"
  let ?second = "Reply 200 (Some (JObj [(''access_token'', JStr ''second'')]))"
  let ?blank = "Reply 200 (Some (JObj [(''access_token'', JStr [])]))"
  let ?fresh = "BingAdsExtractor_init ''t'' ''c'' ''s'' ''r'' ''d'' [?first, ?second]"
  let ?cached = "(BingAdsExtractor_init ''t'' ''c'' ''s'' ''r'' ''d'' [?second])
                   \<lparr>access_token := JStr ''bearer'', trace := [TokenEndpoint]\<rparr>"
  let ?w = "offline\<lparr>users_reply :=
                       Reply 200 (Some (JObj [(''User'', JArr [JObj [(''Id'', JInt 1)]])])),
                     accounts_reply := \<lambda>uid.
                       Reply 200 (Some (JObj [(''Accounts'',
                         JArr [JObj [(''Id'', JInt 10), (''ParentCustomerId'', JInt 5)]])])),
                     campaigns_reply := \<lambda>a c.
                       Reply 200 (Some (JObj [(''Campaigns'',
                         JArr [JObj [(''Name'', JStr ''c1'')]])]))\<rparr>"
  let ?emptied = "(BingAdsExtractor_init ''t'' ''c'' ''s'' ''r'' ''d'' [Reply 401 None])
                      \<lparr>access_token := JStr [], trace := [TokenEndpoint]\<rparr>"
  let ?held = "\<lparr> client_id = ''c'', client_secret = ''s'', refresh_token = ''r'',
         access_token = JStr ''old'', region = ''NA'',
         base_url = ''https://advertising-api.amazon.com'' \<rparr>"
  let ?self = "\<lparr> client_id = ''c'', client_secret = ''s'', refresh_token = ''r'',
              access_token = JNull, region = ''NA'',
              base_url = ''https://advertising-api.amazon.com'' \<rparr>"
  let ?aw = "\<lparr> token_reply = Reply 200 (Some (JObj [(''access_token'', JStr ''bearer'')])),
              profiles_reply = Reply 200 (Some (JArr [JObj [(''profileId'', JInt 1)]])),
              display_script = (\<lambda>q. [Reply 200 (Some (JArr [JStr ''d1'']))]),
              brands_script = (\<lambda>q. [Reply 200 (Some (JObj [(''campaigns'', JArr [JStr q])]))]),
              products_script = (\<lambda>q. [Reply 200 (Some (JObj []))]),
              attribution_script = (\<lambda>q. [Reply 400 None]),
              py_str = (\<lambda>v. ''1'') \<rparr>"
  have w1: "get_access_token ?cached = (Inr (JStr ''bearer''), ?cached)"
  proof -
    have "truthy (access_token ?cached)" by simp
    with T [where s = ?cached, THEN conjunct1] show ?thesis by simp
  qed
  have a: "acquires ?fresh [?second] (JStr ''bearer'')"
    by (simp add: acquires_def BingAdsExtractor_init_def raise_for_status_def)
  have w2: "get_access_token ?fresh = (Inr (JStr ''bearer''), ?cached)"
    using T [where s = ?fresh and rs = "[?second]" and tok = "JStr ''bearer''",
             THEN conjunct2, THEN conjunct1] a
    by (simp add: BingAdsExtractor_init_def)
  have w3: "\<exists>out t l. TokenEndpoint \<notin> set t
              \<and> extract_all ?w False None None ?fresh
                  = (out, (BingAdsExtractor_init ''t'' ''c'' ''s'' ''r'' ''d'' [?second])
                            \<lparr>access_token := JStr ''bearer'', trace := TokenEndpoint # t,
                             stderr := l\<rparr>)"
    using T [where s = ?fresh and rs = "[?second]" and tok = "JStr ''bearer''"
               and w = ?w and inc = False and start_date = None and end_date = None,
             THEN conjunct2, THEN conjunct1] a
    by (simp add: BingAdsExtractor_init_def)
  have w3': "extract_all ?w False None None ?fresh
     = (Inr \<lparr> users = [JObj [(''Id'', JInt 1)]],
               accounts = [JObj [(''Id'', JInt 10), (''ParentCustomerId'', JInt 5)]],
               campaigns = [JObj [(''Name'', JStr ''c1''), (''AccountId'', JInt 10),
                                  (''CustomerId'', JInt 5)]],
               performance_reports = [] \<rparr>,
        (BingAdsExtractor_init ''t'' ''c'' ''s'' ''r'' ''d'' [?second])
          \<lparr>access_token := JStr ''bearer'',
           trace := [TokenEndpoint, UserQuery, AccountsSearch 1, CampaignsQuery 10 5]\<rparr>)"
    by (simp add: offline_def extract_all_def get_users_def
        get_accounts_def get_campaigns_def call_api_def get_auth_headers_def
        get_access_token_def bindM_def returnM_def liftE_def send_def users_of_def
        user_body_def account_body_def fetch_campaigns_into_def try_except_def stamp_def
        raise_for_status_def BingAdsExtractor_init_def)
  have w4: "trace (snd (get_access_token ?emptied)) = [TokenEndpoint, TokenEndpoint]"
  proof -
    have "\<not> truthy (access_token ?emptied)" by simp
    with T [where s = ?emptied, THEN conjunct2, THEN conjunct2, THEN conjunct1]
    show ?thesis by (simp add: BingAdsExtractor_init_def)
  qed
  have w5: "get_access_token (BingAdsExtractor_init ''t'' ''c'' ''s'' ''r'' ''d'' [?blank])
     = (Inr (JStr []),
        (BingAdsExtractor_init ''t'' ''c'' ''s'' ''r'' ''d'' [])
          \<lparr>access_token := JStr [], trace := [TokenEndpoint]\<rparr>)"
  proof -
    let ?s = "BingAdsExtractor_init ''t'' ''c'' ''s'' ''r'' ''d'' [?blank]"
    have "\<not> truthy (access_token ?s) \<and> token_script ?s = ?blank # []
            \<and> json_of_reply ?blank = Inr (JObj [(''access_token'', JStr [])])
            \<and> py_getitem (JObj [(''access_token'', JStr [])]) ''access_token'' = Inr (JStr [])"
      by (simp add: BingAdsExtractor_init_def raise_for_status_def)
    with T [where s = ?s and r = ?blank and rs = "[]"
              and token_data = "JObj [(''access_token'', JStr [])]" and tok = "JStr []",
            THEN conjunct2, THEN conjunct2, THEN conjunct2, THEN conjunct1]
    show ?thesis by (simp add: BingAdsExtractor_init_def)
  qed
  have w6: "refresh_access_token ?held (Reply 200 (Some (JObj [(''access_token'', JStr ''new'')])))
     = (Inr (JStr ''new''),
        \<lparr> client_id = ''c'', client_secret = ''s'', refresh_token = ''r'',
          access_token = JStr ''new'', region = ''NA'',
          base_url = ''https://advertising-api.amazon.com'' \<rparr>,
        [])"
  proof -
    have "json_of_reply (Reply 200 (Some (JObj [(''access_token'', JStr ''new'')])))
            = Inr (JObj [(''access_token'', JStr ''new'')])
          \<and> py_get (JObj [(''access_token'', JStr ''new'')]) ''access_token'' JNull
            = Inr (JStr ''new'')"
      by (simp add: raise_for_status_def)
    with T [where r = "Reply 200 (Some (JObj [(''access_token'', JStr ''new'')]))"
              and data = "JObj [(''access_token'', JStr ''new'')]" and tok = "JStr ''new''"
              and self = ?held,
            THEN conjunct2, THEN conjunct2, THEN conjunct2, THEN conjunct2, THEN conjunct1]
    show ?thesis by simp
  qed
  have w7: "\<exists>out self' calls lines. TokenCall \<notin> set calls
              \<and> fetch_all_data ?self ?aw = (out, self', TokenCall # calls, lines)"
    using T [where self = ?self and aw = ?aw,
             THEN conjunct2, THEN conjunct2, THEN conjunct2, THEN conjunct2, THEN conjunct2]
    by simp
  have w7': "fst (snd (snd (fetch_all_data ?self ?aw)))
     = [TokenCall, ProfilesCall, DisplayCall ''1'', BrandsCall ''1'', ProductsCall ''1'',
        AttributionCall ''1'']"
    by (simp add: fetch_all_data_def refresh_access_token_def get_profiles_def
          profile_body_def get_sponsored_display_campaigns_def
          get_sponsored_brands_campaigns_def get_sponsored_products_campaigns_def
          get_attribution_performance_campaign_def campaigns_iteration_def keyed_page_def
          extend_if_present_def next_marker_def raise_for_status_def Let_def)
  from w1 w2 w3 w3' w4 w5 w6 w7 w7' show ?thesis
    by (intro conjI)
qed

subsection \<open>Containment of failures\<close>

lemma addsI:
  assumes "TokenEndpoint \<notin> set t"
    and "\<And>res s. truthy (access_token s) \<Longrightarrow>
           f res s = (Inr (res\<lparr>campaigns := campaigns res @ c,
                                performance_reports := performance_reports res @ p\<rparr>),
                      s\<lparr>trace := trace s @ t, stderr := stderr s @ l\<rparr>)"
  shows "adds f c p"
  unfolding adds_def using assms by blast

lemma adds_returnM: "adds returnM [] []"
  by (rule addsI [of "[]" _ _ _ "[]"]) (simp_all add: returnM_def)

lemma adds_compose:
  assumes "adds f c p" and "adds g c' p'"
  shows "adds (\<lambda>res. bindM (f res) g) (c @ c') (p @ p')"
proof -
  from assms(1) obtain t l where t: "TokenEndpoint \<notin> set t"
    and f: "\<And>res s. truthy (access_token s) \<Longrightarrow>
              f res s = (Inr (res\<lparr>campaigns := campaigns res @ c,
                                   performance_reports := performance_reports res @ p\<rparr>),
                         s\<lparr>trace := trace s @ t, stderr := stderr s @ l\<rparr>)"
    unfolding adds_def by blast
  from assms(2) obtain t' l' where t': "TokenEndpoint \<notin> set t'"
    and g: "\<And>res s. truthy (access_token s) \<Longrightarrow>
              g res s = (Inr (res\<lparr>campaigns := campaigns res @ c',
                                   performance_reports := performance_reports res @ p'\<rparr>),
                         s\<lparr>trace := trace s @ t', stderr := stderr s @ l'\<rparr>)"
    unfolding adds_def by blast
  show ?thesis
    by (rule addsI [of "t @ t'" _ _ _ "l @ l'"]) (simp_all add: t t' bindM_def f g)
qed

lemma adds_fetch_campaigns_into: "\<exists>c. adds (fetch_campaigns_into w account_id customer_id) c []"
proof -
  define fetch where
    "fetch = bindM (liftE (py_int w account_id)) (\<lambda>aid.
               bindM (liftE (py_int w customer_id)) (\<lambda>cid.
                 bindM (get_campaigns w aid cid) (\<lambda>cs. liftE (py_iter cs))))"
  have shape: "fetch_campaigns_into w account_id customer_id res
                 = try_except
                     (bindM fetch (\<lambda>items. returnM (res\<lparr>campaigns := campaigns res @ items\<rparr>)))
                     (\<lambda>e. bindM (eprint ''Error fetching campaigns for account'') (\<lambda>u. returnM res))"
    for res
    unfolding fetch_campaigns_into_def fetch_def
    by (simp add: bindM_assoc)
  have "quiet fetch"
    unfolding fetch_def by (intro quiet_bindM quiet_liftE quiet_get_campaigns)
  then obtain r t l where t: "TokenEndpoint \<notin> set t"
    and run: "\<And>s. truthy (access_token s) \<Longrightarrow>
                fetch s = (r, s\<lparr>trace := trace s @ t, stderr := stderr s @ l\<rparr>)"
    unfolding quiet_def by blast
  show ?thesis
  proof (cases r)
    case (Inl e)
    have "adds (fetch_campaigns_into w account_id customer_id) [] []"
      by (rule addsI [of t _ _ _ "l @ [''Error fetching campaigns for account'']"])
         (simp_all add: t shape try_except_def bindM_def run Inl eprint_def returnM_def)
    then show ?thesis ..
  next
    case (Inr items)
    have "adds (fetch_campaigns_into w account_id customer_id) items []"
      by (rule addsI [of t _ _ _ l])
         (simp_all add: t shape try_except_def bindM_def run Inr returnM_def)
    then show ?thesis ..
  qed
qed

lemma adds_fetch_report_into:
  "\<exists>p. adds (fetch_report_into w start_date end_date account_id account_name) [] p"
proof -
  define fetch where
    "fetch = bindM (liftE (py_int w account_id)) (\<lambda>aid.
               get_performance_report w aid start_date end_date 300)"
  define entry where
    "entry = (\<lambda>report_data.
       JObj [(''account_id'', account_id), (''account_name'', account_name),
             (''report_type'', JStr ''campaign_performance''),
             (''data'', JArr report_data)])"
  have shape: "fetch_report_into w start_date end_date account_id account_name res
                 = try_except
                     (bindM fetch (\<lambda>report_data.
                        returnM (res\<lparr>performance_reports :=
                                       performance_reports res @ [entry report_data]\<rparr>)))
                     (\<lambda>e. bindM (eprint ''Error fetching performance report for account'')
                            (\<lambda>u. returnM res))"
    for res
    unfolding fetch_report_into_def fetch_def entry_def
    by (simp add: bindM_assoc)
  have "quiet fetch"
    unfolding fetch_def by (intro quiet_bindM quiet_liftE quiet_get_performance_report)
  then obtain r t l where t: "TokenEndpoint \<notin> set t"
    and run: "\<And>s. truthy (access_token s) \<Longrightarrow>
                fetch s = (r, s\<lparr>trace := trace s @ t, stderr := stderr s @ l\<rparr>)"
    unfolding quiet_def by blast
  show ?thesis
  proof (cases r)
    case (Inl e)
    have "adds (fetch_report_into w start_date end_date account_id account_name) [] []"
      by (rule addsI [of t _ _ _ "l @ [''Error fetching performance report for account'']"])
         (simp_all add: t shape try_except_def bindM_def run Inl eprint_def returnM_def)
    then show ?thesis ..
  next
    case (Inr report_data)
    have "adds (fetch_report_into w start_date end_date account_id account_name) []
            [entry report_data]"
      by (rule addsI [of t _ _ _ l])
         (simp_all add: t shape try_except_def bindM_def run Inr returnM_def)
    then show ?thesis ..
  qed
qed

lemma py_get_object: "\<exists>v. py_get (JObj kvs) k dflt = Inr v"
  by (cases "map_of kvs k") simp_all

lemma adds_account_body:
  assumes "is_object account"
  shows "\<exists>c p. adds (account_body w inc start_date end_date account) c p"
proof -
  from assms obtain kvs where account: "account = JObj kvs"
    by (cases account) simp_all
  obtain account_id where id: "py_get account ''Id'' JNull = Inr account_id"
    unfolding account using py_get_object by blast
  obtain customer_id where cu: "py_get account ''ParentCustomerId'' JNull = Inr customer_id"
    unfolding account using py_get_object by blast
  obtain account_name where na: "py_get account ''Name'' JNull = Inr account_name"
    unfolding account using py_get_object by blast
  show ?thesis
  proof (cases "truthy account_id \<and> truthy customer_id")
    case False
    then have "account_body w inc start_date end_date account = returnM"
      by (intro ext) (auto simp: account_body_def id cu na)
    then show ?thesis using adds_returnM by auto
  next
    case True
    obtain c where c: "adds (fetch_campaigns_into w account_id customer_id) c []"
      using adds_fetch_campaigns_into by blast
    show ?thesis
    proof (cases inc)
      case True
      obtain p where p: "adds (fetch_report_into w start_date end_date account_id account_name) [] p"
        using adds_fetch_report_into by blast
      have "account_body w inc start_date end_date account
              = (\<lambda>res. bindM (fetch_campaigns_into w account_id customer_id res)
                         (fetch_report_into w start_date end_date account_id account_name))"
        using \<open>truthy account_id \<and> truthy customer_id\<close> True
        by (intro ext) (simp add: account_body_def id cu na)
      with adds_compose [OF c p] show ?thesis by auto
    next
      case False
      have "account_body w inc start_date end_date account
              = (\<lambda>res. bindM (fetch_campaigns_into w account_id customer_id res) returnM)"
        using \<open>truthy account_id \<and> truthy customer_id\<close> False
        by (intro ext) (simp add: account_body_def id cu na)
      with adds_compose [OF c adds_returnM] show ?thesis by auto
    qed
  qed
qed

lemma alone_of_adds:
  assumes "adds (account_body w inc start_date end_date account) c p"
    and "truthy (access_token s)"
  shows "alone w inc start_date end_date s account
           = \<lparr> users = [], accounts = [], campaigns = c, performance_reports = p \<rparr>"
  using assms unfolding adds_def alone_def by auto













lemma alone_cached:
  assumes "is_object a" and "truthy (access_token s)" and "truthy (access_token s0)"
  shows "alone w inc start_date end_date s a = alone w inc start_date end_date s0 a"
proof -
  obtain c p where cp: "adds (account_body w inc start_date end_date a) c p"
    using adds_account_body [OF assms(1)] by blast
  show ?thesis
    using alone_of_adds [OF cp assms(2)] alone_of_adds [OF cp assms(3)] by simp
qed


















end
